theory Spec2Isabelle
  imports Complex_Main
begin

section \<open>Scoring of parallel sentences (sockeye/scoring.py)\<close>

text \<open>
  A shallow embedding of \<^verbatim>\<open>BatchScorer\<close> and \<^verbatim>\<open>Scorer\<close>.
  Conventions of the embedding:
  \<^item> token ids are natural numbers; logits, probabilities, lengths and penalties are real
    numbers (the arithmetic of the arrays is the exact one, rounding is not modelled);
  \<^item> a score is a \<open>pyfloat\<close>: a number, an infinity or NaN, since the division of two
    arrays does not raise on a zero divisor but yields these values;
  \<^item> an NDArray is its dtype together with its contents, a nested list with the batch axis
    outermost; elementwise operations on two arrays pair their entries with \<open>map2\<close>;
  \<^item> every Python exception is a value of type \<open>error\<close>;
  \<^item> the module of constants, the data iterator's batch splitting and the clock are
    parameters, since their code is not part of this file.
\<close>

subsection \<open>Errors, constants, arrays\<close>

datatype error = TypeError | ValueError | IndexError | KeyError | ZeroDivisionError
  | MXNetError | ModelError

definition bind :: "error + 'a \<Rightarrow> ('a \<Rightarrow> error + 'b) \<Rightarrow> error + 'b" where
  "bind r f = (case r of Inl e \<Rightarrow> Inl e | Inr v \<Rightarrow> f v)"

text \<open>The names of \<^verbatim>\<open>constants\<close> (imported as \<^verbatim>\<open>C\<close>) that the code reads.\<close>

record constants =
  PAD_ID :: nat
  SCORING_TYPE_NEGLOGPROB :: string
  DTYPE_FP16 :: string
  TOKEN_SEPARATOR :: string

datatype 'a ndarray = NDArray (dtype: string) (asnumpy: 'a)

definition astype :: "string \<Rightarrow> 'a ndarray \<Rightarrow> 'a ndarray" where
  "astype d a = NDArray d (asnumpy a)"

text \<open>
  A floating-point entry of a score array, and the value \<^verbatim>\<open>-np.inf\<close>: a number, an
  infinity or NaN.
\<close>

datatype pyfloat = Float real | PosInf | NegInf | NaN

text \<open>
  The entries of \<^verbatim>\<open>a / b\<close> on arrays: by IEEE 754 a division by zero raises nothing, it
  gives an infinity with the sign of the numerator, or NaN for 0 / 0 (the sign of a zero is
  not modelled). The entries of \<^verbatim>\<open>a - b\<close> where \<open>b\<close> is a number.
\<close>

definition fdiv :: "real \<Rightarrow> real \<Rightarrow> pyfloat" where
  "fdiv a b = (if b \<noteq> 0 then Float (a / b)
               else if 0 < a then PosInf else if a < 0 then NegInf else NaN)"

definition fsub :: "pyfloat \<Rightarrow> real \<Rightarrow> pyfloat" where
  "fsub a b = (case a of Float x \<Rightarrow> Float (x - b) | PosInf \<Rightarrow> PosInf | NegInf \<Rightarrow> NegInf
               | NaN \<Rightarrow> NaN)"

subsection \<open>BatchScorer\<close>

record batch_scorer =
  score_type :: string
  softmax_temperature :: "real option"
  length_penalty :: "real \<Rightarrow> real"
  brevity_penalty :: "real \<Rightarrow> real \<Rightarrow> real"
  constant_length_ratio :: "real option"

text \<open>
  \<^verbatim>\<open>BatchScorer.__init__\<close> stores its arguments. The result is a sum so that a failing
  construction could be told from a successful one; the source has no raising branch.
\<close>

definition BatchScorer_init ::
  "(real \<Rightarrow> real) \<Rightarrow> (real \<Rightarrow> real \<Rightarrow> real) \<Rightarrow> string \<Rightarrow> real option \<Rightarrow> real option
    \<Rightarrow> error + batch_scorer" where
  "BatchScorer_init length_penalty' brevity_penalty' score_type' softmax_temperature'
      constant_length_ratio' =
     Inr \<lparr>score_type = score_type',
          softmax_temperature = softmax_temperature',
          length_penalty = length_penalty',
          brevity_penalty = brevity_penalty',
          constant_length_ratio = constant_length_ratio'\<rparr>"

text \<open>\<^verbatim>\<open>F.softmax(logits, axis=-1)\<close> on one vector of the vocabulary axis.\<close>

definition softmax :: "real list \<Rightarrow> real list" where
  "softmax xs = map (\<lambda>x. exp x / sum_list (map exp xs)) xs"

text \<open>
  \<^verbatim>\<open>F.pick(target_dists, labels, axis=-1)\<close> on one vector: the entry at the label;
  MXNet's default mode clips an index past the end to the last entry.
\<close>

definition pick :: "real list \<Rightarrow> nat \<Rightarrow> real" where
  "pick data index = data ! min index (length data - 1)"

text \<open>
  \<^verbatim>\<open>hybrid_forward\<close>. The penalties are functions of one sentence's values, applied to
  every entry of the batch.
\<close>

definition hybrid_forward ::
  "constants \<Rightarrow> batch_scorer \<Rightarrow> real list list list \<Rightarrow> nat list list \<Rightarrow> real list
    \<Rightarrow> real list \<Rightarrow> real list \<Rightarrow> pyfloat list" where
  "hybrid_forward C self logits labels length_ratio source_length target_length =
    (let logits = (case softmax_temperature self of
                     Some T \<Rightarrow> map (map (map (\<lambda>x. x / T))) logits
                   | None \<Rightarrow> logits);
         target_dists = map (map softmax) logits;
         probs = map2 (map2 pick) target_dists labels;
         token_scores = map (map ln) probs;
         token_scores = (if score_type self = SCORING_TYPE_NEGLOGPROB C
                         then map (map (\<lambda>x. x * (- 1))) token_scores
                         else token_scores);
         scores = map2 fdiv
                    (map2 (\<lambda>l t. sum_list (map2 (\<lambda>label ts. if label \<noteq> 0 then ts else 0) l t))
                       labels token_scores)
                    (map (length_penalty self) (map (\<lambda>t. t - 1) target_length));
         length_ratio = (case constant_length_ratio self of
                           Some r \<Rightarrow> map2 (+) length_ratio (map (\<lambda>_. r * 1) scores)
                         | None \<Rightarrow> length_ratio);
         scores = map2 fsub scores
                    (map2 (brevity_penalty self) (map (\<lambda>t. t - 1) target_length)
                       (map2 (*) length_ratio source_length))
     in scores)"

subsection \<open>Scorer.score\_batch\<close>

text \<open>The four inputs of the model: source, source length, target, target length.\<close>

type_synonym inputs =
  "nat list list list ndarray \<times> real list ndarray \<times> nat list list ndarray \<times> real list ndarray"

text \<open>The dictionary of labels holds the target labels; the model's outputs hold the logits
  and, for a model that predicts it, the length ratio.\<close>

record labels_dict =
  TARGET_LABEL_NAME :: "nat list list ndarray"

record outputs_dict =
  LOGITS_NAME :: "real list list list"
  LENRATIO_NAME :: "real list option"

record sockeye_model =
  model_dtype :: string
  forward :: "inputs \<Rightarrow> error + outputs_dict"

record 'ctx scorer =
  source_vocab_inv :: "nat \<rightharpoonup> string"
  target_vocab_inv :: "nat \<rightharpoonup> string"
  model :: sockeye_model
  batch_scorer :: batch_scorer
  scorer_context :: 'ctx
  exclude_list :: "nat set"

record batch =
  batch_source :: "nat list list list ndarray"
  batch_source_length :: "real list ndarray"
  batch_target :: "nat list list ndarray"
  batch_target_length :: "real list ndarray"
  batch_labels :: labels_dict

text \<open>
  What \<^verbatim>\<open>inputs\<close> is bound to inside the loop: the tuple the shard came with, which can
  be iterated again and again, or the generator expression of the casts, which yields its
  items once (\<open>Generator None\<close> is the exhausted generator).
\<close>

datatype py_iterable = Tuple inputs | Generator "inputs option"

definition astype_all :: "string \<Rightarrow> inputs \<Rightarrow> inputs" where
  "astype_all d i = (case i of (a, b, c, e) \<Rightarrow> (astype d a, astype d b, astype d c, astype d e))"

text \<open>\<^verbatim>\<open>source, source_length, target, target_length = inputs\<close>: the four items and the
  iterable afterwards.\<close>

definition unpack4 :: "py_iterable \<Rightarrow> error + (inputs \<times> py_iterable)" where
  "unpack4 it = (case it of
       Tuple t \<Rightarrow> Inr (t, Tuple t)
     | Generator (Some t) \<Rightarrow> Inr (t, Generator None)
     | Generator None \<Rightarrow> Inl ValueError)"

text \<open>\<^verbatim>\<open>*inputs\<close>: the positional arguments an iterable expands to (\<open>None\<close>: no argument).\<close>

definition star_args :: "py_iterable \<Rightarrow> inputs option" where
  "star_args it = (case it of Tuple t \<Rightarrow> Some t | Generator g \<Rightarrow> g)"

text \<open>Calling the model, a callable of four positional parameters.\<close>

definition call_model :: "sockeye_model \<Rightarrow> inputs option \<Rightarrow> error + outputs_dict" where
  "call_model m args = (case args of None \<Rightarrow> Inl TypeError | Some t \<Rightarrow> forward m t)"

text \<open>The body of the loop over the shards, up to the scores of the shard.\<close>

definition score_shard ::
  "constants \<Rightarrow> 'ctx scorer \<Rightarrow> inputs \<times> labels_dict \<Rightarrow> error + pyfloat list" where
  "score_shard C self shard =
    (case shard of (inputs, labels) \<Rightarrow>
      (let inputs = (if model_dtype (model self) = DTYPE_FP16 C
                     then Generator (Some (astype_all (DTYPE_FP16 C) inputs))
                     else Tuple inputs)
       in bind (unpack4 inputs) (\<lambda>(unpacked, inputs).
            (case unpacked of (src, source_length, tgt, target_length) \<Rightarrow>
              bind (call_model (model self) (star_args inputs)) (\<lambda>outputs.
                (let logits = LOGITS_NAME outputs;
                     label = TARGET_LABEL_NAME labels;
                     length_ratio = (case LENRATIO_NAME outputs of
                                       Some r \<Rightarrow> r
                                     | None \<Rightarrow> map (\<lambda>_. 0) (asnumpy source_length))
                 in Inr (hybrid_forward C (batch_scorer self) logits (asnumpy label)
                           length_ratio (asnumpy source_length) (asnumpy target_length))))))))"

fun score_shards ::
  "constants \<Rightarrow> 'ctx scorer \<Rightarrow> (inputs \<times> labels_dict) list \<Rightarrow> pyfloat list list
    \<Rightarrow> error + pyfloat list list" where
  "score_shards C self [] batch_scores = Inr batch_scores"
| "score_shards C self (shard # shards) batch_scores =
     bind (score_shard C self shard)
       (\<lambda>scores. score_shards C self shards (batch_scores @ [scores]))"

text \<open>
  \<^verbatim>\<open>score_batch\<close>. The parameter \<open>split_and_load\<close> stands for
  \<^verbatim>\<open>batch.split_and_load(ctx=self.context).shards()\<close>, the shards in index order.
  \<^verbatim>\<open>mx.nd.concat\<close> needs at least one array.
\<close>

definition score_batch ::
  "constants \<Rightarrow> ('ctx \<Rightarrow> batch \<Rightarrow> (inputs \<times> labels_dict) list) \<Rightarrow> 'ctx scorer \<Rightarrow> batch
    \<Rightarrow> error + pyfloat list" where
  "score_batch C split_and_load self b =
     bind (score_shards C self (split_and_load (scorer_context self) b) [])
       (\<lambda>batch_scores. if batch_scores = [] then Inl MXNetError else Inr (concat batch_scores))"

subsection \<open>Scorer.score\<close>

datatype translator_input = TranslatorInput nat "string list"

datatype translator_output =
  TranslatorOutput nat string "unit option" "unit option" pyfloat

text \<open>One call of \<^verbatim>\<open>output_handler.handle\<close>: its three arguments.\<close>

type_synonym handled = "translator_input \<times> translator_output \<times> real"

datatype log_arg = ArgInt int | ArgFloat real

datatype log_record = LogInfo string "log_arg list"

text \<open>
  Modelled from the spec: \<^verbatim>\<open>data_io.ids2tokens\<close> is not among the sources. Rendering a
  token-id sequence through the reverse vocabulary drops exactly the ids of the exclude set
  and preserves the relative order of all remaining ids. The reverse vocabulary is a
  dictionary: an id that is kept and has no entry is a \<open>KeyError\<close>.
\<close>

fun ids2tokens :: "nat list \<Rightarrow> (nat \<rightharpoonup> string) \<Rightarrow> nat set \<Rightarrow> error + string list" where
  "ids2tokens [] vocab_inv exclude_set = Inr []"
| "ids2tokens (token_id # token_ids) vocab_inv exclude_set =
     (if token_id \<in> exclude_set then ids2tokens token_ids vocab_inv exclude_set
      else (case vocab_inv token_id of
              None \<Rightarrow> Inl KeyError
            | Some tok \<Rightarrow>
                bind (ids2tokens token_ids vocab_inv exclude_set) (\<lambda>toks. Inr (tok # toks))))"

text \<open>\<^verbatim>\<open>sep.join(tokens)\<close>.\<close>

fun join :: "string \<Rightarrow> string list \<Rightarrow> string" where
  "join sep [] = []"
| "join sep [t] = t"
| "join sep (t # ts) = t @ sep @ join sep ts"

text \<open>\<^verbatim>\<open>x[0]\<close>, and \<^verbatim>\<open>source[:, 0]\<close> on the (length, factors) array of one sentence.\<close>

definition first :: "'a list \<Rightarrow> error + 'a" where
  "first xs = (case xs of [] \<Rightarrow> Inl IndexError | x # _ \<Rightarrow> Inr x)"

fun column0 :: "'a list list \<Rightarrow> error + 'a list" where
  "column0 [] = Inr []"
| "column0 (r # rs) = bind (first r) (\<lambda>x. bind (column0 rs) (\<lambda>xs. Inr (x # xs)))"

text \<open>
  The body of the loop over the sentences of a batch, from the sentence number already
  incremented to the arguments of \<^verbatim>\<open>output_handler.handle\<close>. A sentence is the triple
  of \<^verbatim>\<open>zip(batch.source, batch.target, scores)\<close>; \<^verbatim>\<open>score.asscalar()\<close> is the entry of
  the score array as it is.
\<close>

definition sentence_output ::
  "constants \<Rightarrow> 'ctx scorer \<Rightarrow> nat \<Rightarrow> real \<Rightarrow> nat list list \<times> nat list \<times> pyfloat
    \<Rightarrow> error + handled" where
  "sentence_output C self sentence_id batch_time sentence =
    (case sentence of (src, tgt, raw) \<Rightarrow>
      bind (column0 src) (\<lambda>source_ids.
      bind (ids2tokens source_ids (source_vocab_inv self) (exclude_list self)) (\<lambda>source_tokens.
      bind (ids2tokens tgt (target_vocab_inv self) (exclude_list self)) (\<lambda>target_tokens.
      (let target_string = join (TOKEN_SEPARATOR C) target_tokens in
      bind (bind (first src) first) (\<lambda>source00.
      bind (if source00 = PAD_ID C then Inr True
            else bind (first tgt) (\<lambda>target0. Inr (target0 = PAD_ID C))) (\<lambda>invalid.
      (let final = (if invalid then NegInf else raw) in
       Inr (TranslatorInput sentence_id source_tokens,
            TranslatorOutput sentence_id target_string None None final,
            batch_time)))))))))"

text \<open>The local variables of \<^verbatim>\<open>score\<close>, the number of clock readings taken and the calls
  the output handler has received.\<close>

record score_state =
  total_time :: real
  sentence_no :: nat
  batch_no :: nat
  time_calls :: nat
  output_handler :: "handled list"

fun score_sentences ::
  "constants \<Rightarrow> 'ctx scorer \<Rightarrow> real \<Rightarrow> (nat list list \<times> nat list \<times> pyfloat) list
    \<Rightarrow> score_state \<Rightarrow> error option \<times> score_state" where
  "score_sentences C self batch_time [] st = (None, st)"
| "score_sentences C self batch_time (sentence # rest) st =
     (let st = st\<lparr>sentence_no := sentence_no st + 1\<rparr> in
      case sentence_output C self (sentence_no st) batch_time sentence of
        Inl e \<Rightarrow> (Some e, st)
      | Inr h \<Rightarrow>
          score_sentences C self batch_time rest
            (st\<lparr>output_handler := output_handler st @ [h]\<rparr>))"

text \<open>The loop over \<^verbatim>\<open>enumerate(score_iter, 1)\<close>; \<open>clock n\<close> is what the \<open>n\<close>-th call
  of \<^verbatim>\<open>time.time()\<close> returns.\<close>

fun score_loop ::
  "constants \<Rightarrow> ('ctx \<Rightarrow> batch \<Rightarrow> (inputs \<times> labels_dict) list) \<Rightarrow> 'ctx scorer \<Rightarrow> (nat \<Rightarrow> real)
    \<Rightarrow> (nat \<times> batch) list \<Rightarrow> score_state \<Rightarrow> error option \<times> score_state" where
  "score_loop C split_and_load self clock [] st = (None, st)"
| "score_loop C split_and_load self clock ((i, b) # rest) st =
     (let st = st\<lparr>batch_no := i\<rparr>;
          batch_tic = clock (time_calls st);
          st = st\<lparr>time_calls := time_calls st + 1\<rparr>
      in case score_batch C split_and_load self b of
           Inl e \<Rightarrow> (Some e, st)
         | Inr scores \<Rightarrow>
             (let batch_time = clock (time_calls st) - batch_tic;
                  st = st\<lparr>time_calls := time_calls st + 1\<rparr>;
                  st = st\<lparr>total_time := total_time st + batch_time\<rparr>
              in case score_sentences C self batch_time
                        (zip (asnumpy (batch_source b)) (zip (asnumpy (batch_target b)) scores)) st of
                   (Some e, st) \<Rightarrow> (Some e, st)
                 | (None, st) \<Rightarrow> score_loop C split_and_load self clock rest st))"

text \<open>Python's \<^verbatim>\<open>/\<close> on numbers.\<close>

definition truediv :: "real \<Rightarrow> real \<Rightarrow> error + real" where
  "truediv a b = (if b = 0 then Inl ZeroDivisionError else Inr (a / b))"

definition initial_state :: score_state where
  "initial_state =
     \<lparr>total_time = 0, sentence_no = 0, batch_no = 0, time_calls = 0, output_handler = []\<rparr>"

text \<open>
  \<^verbatim>\<open>score\<close>: the calls the output handler received, and the record given to the logger
  or the exception that ended the run.
\<close>

definition score ::
  "constants \<Rightarrow> ('ctx \<Rightarrow> batch \<Rightarrow> (inputs \<times> labels_dict) list) \<Rightarrow> 'ctx scorer \<Rightarrow> (nat \<Rightarrow> real)
    \<Rightarrow> batch list \<Rightarrow> handled list \<times> (error + log_record)" where
  "score C split_and_load self clock score_iter =
    (case score_loop C split_and_load self clock (enumerate 1 score_iter) initial_state of
       (Some e, st) \<Rightarrow> (output_handler st, Inl e)
     | (None, st) \<Rightarrow>
         (output_handler st,
          if sentence_no st \<noteq> 0 then
            bind (truediv (real (sentence_no st)) (real (batch_no st))) (\<lambda>per_batch.
            bind (truediv (total_time st) (real (sentence_no st))) (\<lambda>sec_per_sent.
            bind (truediv (real (sentence_no st)) (total_time st)) (\<lambda>sent_per_sec.
              Inr (LogInfo
                ''Processed %d lines in %d batches. Total time: %.4f, sec/sent: %.4f, sent/sec: %.4f''
                [ArgInt (int (sentence_no st)), ArgInt \<lceil>per_batch\<rceil>, ArgFloat (total_time st),
                 ArgFloat sec_per_sent, ArgFloat sent_per_sec]))))
          else Inr (LogInfo ''Processed 0 lines.'' [])))"

subsection \<open>Notions used to state the properties\<close>

text \<open>
  The sum the specification describes for one sentence: over every time step whose label is
  not PAD (id 0), the natural logarithm of the softmax probability, after the optional
  division of the logits by the temperature, of the gold label at that step.
\<close>

definition gold_logprob_sum :: "real option \<Rightarrow> real list list \<Rightarrow> nat list \<Rightarrow> real" where
  "gold_logprob_sum temperature logits labels =
     (\<Sum>t\<leftarrow>[0..<length labels].
        if labels ! t \<noteq> 0
        then ln (softmax (case temperature of
                            None \<Rightarrow> logits ! t
                          | Some T \<Rightarrow> map (\<lambda>x. x / T) (logits ! t)) ! (labels ! t))
        else 0)"

text \<open>The negation of a score.\<close>

definition fneg :: "pyfloat \<Rightarrow> pyfloat" where
  "fneg a = (case a of Float x \<Rightarrow> Float (- x) | PosInf \<Rightarrow> NegInf | NegInf \<Rightarrow> PosInf
             | NaN \<Rightarrow> NaN)"

text \<open>The split of a batch into a single shard (K = 1): the arrays of the batch themselves.\<close>

definition single_shard :: "'ctx \<Rightarrow> batch \<Rightarrow> (inputs \<times> labels_dict) list" where
  "single_shard ctx b =
     [((batch_source b, batch_source_length b, batch_target b, batch_target_length b),
       batch_labels b)]"

text \<open>
  A list of shards partitions a batch when there is at least one shard, the five arrays of
  every shard have the same number of rows, and the rows of the shards, taken in index
  order, are the rows of the batch.
\<close>

definition aligned :: "inputs \<times> labels_dict \<Rightarrow> bool" where
  "aligned shard = (case shard of ((s, sl, t, tlen), l) \<Rightarrow>
     length (asnumpy sl) = length (asnumpy s) \<and> length (asnumpy t) = length (asnumpy s) \<and>
     length (asnumpy tlen) = length (asnumpy s) \<and>
     length (asnumpy (TARGET_LABEL_NAME l)) = length (asnumpy s))"

definition partitions :: "(inputs \<times> labels_dict) list \<Rightarrow> batch \<Rightarrow> bool" where
  "partitions shards b \<longleftrightarrow>
     shards \<noteq> [] \<and> list_all aligned shards \<and>
     asnumpy (batch_source b) = concat (map (\<lambda>((s, sl, t, tlen), l). asnumpy s) shards) \<and>
     asnumpy (batch_source_length b) = concat (map (\<lambda>((s, sl, t, tlen), l). asnumpy sl) shards) \<and>
     asnumpy (batch_target b) = concat (map (\<lambda>((s, sl, t, tlen), l). asnumpy t) shards) \<and>
     asnumpy (batch_target_length b) = concat (map (\<lambda>((s, sl, t, tlen), l). asnumpy tlen) shards) \<and>
     asnumpy (TARGET_LABEL_NAME (batch_labels b)) =
       concat (map (\<lambda>((s, sl, t, tlen), l). asnumpy (TARGET_LABEL_NAME l)) shards)"

text \<open>
  A model that treats the sentences of its input independently: the logits of a row, and
  its length ratio when the model predicts one, depend on that row only.
\<close>

definition rows_of :: "inputs \<Rightarrow> (nat list list \<times> real \<times> nat list \<times> real) list" where
  "rows_of i = (case i of (s, sl, t, tlen) \<Rightarrow>
     zip (asnumpy s) (zip (asnumpy sl) (zip (asnumpy t) (asnumpy tlen))))"

definition rowwise_model ::
  "(nat list list \<times> real \<times> nat list \<times> real \<Rightarrow> real list list)
    \<Rightarrow> (nat list list \<times> real \<times> nat list \<times> real \<Rightarrow> real) option
    \<Rightarrow> inputs \<Rightarrow> error + outputs_dict" where
  "rowwise_model f g i =
     Inr \<lparr>LOGITS_NAME = map f (rows_of i),
          LENRATIO_NAME = map_option (\<lambda>h. map h (rows_of i)) g\<rparr>"

subsection \<open>An example run\<close>

text \<open>
  The example of the specification: a batch of two sentences, one valid (source 5 7 2,
  target 9 3 2) and one that is padding only, scored in full precision by a model whose
  logits are all zero over a vocabulary of four ids, with neutral penalties. The clock
  reads 0, 1, 2, ... on its successive calls.
\<close>

definition example_constants :: constants where
  "example_constants =
     \<lparr>PAD_ID = 0, SCORING_TYPE_NEGLOGPROB = ''neglogprob'', DTYPE_FP16 = ''float16'',
      TOKEN_SEPARATOR = '' ''\<rparr>"

definition example_scorer :: "unit scorer" where
  "example_scorer =
     \<lparr>source_vocab_inv = [2 \<mapsto> ''</s>'', 5 \<mapsto> ''a'', 7 \<mapsto> ''b''],
      target_vocab_inv = [2 \<mapsto> ''</s>'', 3 \<mapsto> ''d'', 9 \<mapsto> ''c''],
      model = \<lparr>model_dtype = ''float32'',
                forward = rowwise_model (\<lambda>_. [[0, 0, 0, 0], [0, 0, 0, 0], [0, 0, 0, 0]]) None\<rparr>,
      batch_scorer = \<lparr>score_type = ''logprob'', softmax_temperature = None,
                       length_penalty = (\<lambda>_. 1), brevity_penalty = (\<lambda>_ _. 0),
                       constant_length_ratio = None\<rparr>,
      scorer_context = (), exclude_list = {1, 2, 0}\<rparr>"

definition example_batch :: batch where
  "example_batch =
     \<lparr>batch_source = NDArray ''float32'' [[[5], [7], [2]], [[0], [0], [0]]],
      batch_source_length = NDArray ''float32'' [3, 0],
      batch_target = NDArray ''float32'' [[9, 3, 2], [0, 0, 0]],
      batch_target_length = NDArray ''float32'' [3, 0],
      batch_labels = \<lparr>TARGET_LABEL_NAME = NDArray ''float32'' [[3, 2, 0], [0, 0, 0]]\<rparr>\<rparr>"

text \<open>The split of a batch into one shard per row.\<close>

definition one_row_shards :: "'ctx \<Rightarrow> batch \<Rightarrow> (inputs \<times> labels_dict) list" where
  "one_row_shards ctx b =
     map (\<lambda>i.
        ((NDArray (dtype (batch_source b)) [asnumpy (batch_source b) ! i],
          NDArray (dtype (batch_source_length b)) [asnumpy (batch_source_length b) ! i],
          NDArray (dtype (batch_target b)) [asnumpy (batch_target b) ! i],
          NDArray (dtype (batch_target_length b)) [asnumpy (batch_target_length b) ! i]),
         \<lparr>TARGET_LABEL_NAME =
            NDArray (dtype (TARGET_LABEL_NAME (batch_labels b)))
              [asnumpy (TARGET_LABEL_NAME (batch_labels b)) ! i]\<rparr>))
       [0..<length (asnumpy (batch_source b))]"

section \<open>Properties of BatchScorer\<close>

subsection \<open>Negated token scores\<close>

lemma masked_sum_neg:
  "sum_list (map2 (\<lambda>label ts. if P label then ts else 0) l (map uminus t))
   = - sum_list (map2 (\<lambda>label ts. if P label then ts else (0::real)) l t)"
proof (induction l arbitrary: t)
  case Nil
  then show ?case by simp
next
  case (Cons a l)
  then show ?case by (cases t) auto
qed

lemma masked_sums_neg:
  "map2 (\<lambda>l t. sum_list (map2 (\<lambda>label ts. if P label then ts else 0) l t))
       labels (map (map uminus) TS)
   = map uminus (map2 (\<lambda>l t. sum_list (map2 (\<lambda>label ts. if P label then ts else (0::real)) l t))
       labels TS)"
proof (induction labels arbitrary: TS)
  case Nil
  then show ?case by simp
next
  case (Cons a labels)
  then show ?case by (cases TS) (simp_all add: masked_sum_neg)
qed

lemma fdiv_neg: "fdiv (- a) b = fneg (fdiv a b)"
  by (simp add: fdiv_def fneg_def)

lemma divide_neg: "map2 fdiv (map uminus A) B = map fneg (map2 fdiv A B)"
  by (induction A arbitrary: B) (simp, case_tac B, simp_all add: fdiv_neg)

lemma fsub_zero_neg: "fsub (fneg a) 0 = fneg (fsub a 0)"
  by (cases a) (simp_all add: fsub_def fneg_def)

lemma subtract_zero_neg:
  "map2 fsub (map fneg S) (map2 (\<lambda>_ _. 0) X Y)
   = map fneg (map2 fsub S (map2 (\<lambda>_ _. 0) X Y))"
proof (induction S arbitrary: X Y)
  case Nil
  then show ?case by simp
next
  case (Cons a S)
  then show ?case by (cases X; cases Y) (simp_all add: fsub_zero_neg)
qed

lemma times_minus_one: "(\<lambda>x::real. x * (- 1)) = uminus"
  by auto

text \<open>
  Claim C9. For identical inputs (logits, labels, length ratio, source length, target
  length), when the length penalty is the constant 1 and the brevity penalty the constant 0,
  the scores under the score type negative-log-probability are the negations (\<open>fneg\<close>) of
  the scores under any other score type (the code treats every other score type as
  log-probability).
\<close>

theorem C9_neglogprob_is_negated_logprob:
  assumes lp: "length_penalty bs = (\<lambda>_. 1)" and bp: "brevity_penalty bs = (\<lambda>_ _. 0)"
    and st: "st \<noteq> SCORING_TYPE_NEGLOGPROB C"
  shows "hybrid_forward C (bs\<lparr>score_type := SCORING_TYPE_NEGLOGPROB C\<rparr>) logits labels
           length_ratio source_length target_length
       = map fneg (hybrid_forward C (bs\<lparr>score_type := st\<rparr>) logits labels
           length_ratio source_length target_length)"
proof -
  define TS where "TS = map (map ln) (map2 (map2 pick) (map (map softmax)
      (case softmax_temperature bs of Some T \<Rightarrow> map (map (map (\<lambda>x. x / T))) logits
       | None \<Rightarrow> logits)) labels)"
  define fin :: "real list list \<Rightarrow> pyfloat list" where "fin = (\<lambda>ts.
     let scores = map2 fdiv
                    (map2 (\<lambda>l t. sum_list (map2 (\<lambda>label ts. if label \<noteq> (0::nat) then ts else 0) l t))
                       labels ts)
                    (map (\<lambda>_. 1) (map (\<lambda>t. t - 1) target_length));
         ratio = (case constant_length_ratio bs of
                    Some r \<Rightarrow> map2 (+) length_ratio (map (\<lambda>_. r * 1) scores)
                  | None \<Rightarrow> length_ratio)
     in map2 fsub scores
           (map2 (\<lambda>_ _. 0) (map (\<lambda>t. t - 1) target_length) (map2 (*) ratio source_length)))"
  have sel: "softmax_temperature (bs\<lparr>score_type := x\<rparr>) = softmax_temperature bs"
    "length_penalty (bs\<lparr>score_type := x\<rparr>) = length_penalty bs"
    "brevity_penalty (bs\<lparr>score_type := x\<rparr>) = brevity_penalty bs"
    "constant_length_ratio (bs\<lparr>score_type := x\<rparr>) = constant_length_ratio bs"
    "score_type (bs\<lparr>score_type := x\<rparr>) = x" for x
    by simp_all
  have neg: "hybrid_forward C (bs\<lparr>score_type := SCORING_TYPE_NEGLOGPROB C\<rparr>) logits labels
        length_ratio source_length target_length = fin (map (map uminus) TS)"
    unfolding hybrid_forward_def TS_def fin_def Let_def times_minus_one
    by (simp only: sel lp bp if_True simp_thms)
  have pos: "hybrid_forward C (bs\<lparr>score_type := st\<rparr>) logits labels
        length_ratio source_length target_length = fin TS"
    unfolding hybrid_forward_def TS_def fin_def Let_def
    using st by (simp only: sel lp bp if_False simp_thms)
  have "fin (map (map uminus) TS) = map fneg (fin TS)"
    unfolding fin_def Let_def masked_sums_neg divide_neg
    by (cases "constant_length_ratio bs")
      (simp_all only: option.case subtract_zero_neg length_map map_replicate_const)
  with neg pos show ?thesis by simp
qed

theorem C9_neglogprob_is_negated_logprob_witness:
  "(let C = \<lparr>PAD_ID = 0, SCORING_TYPE_NEGLOGPROB = ''neglogprob'', DTYPE_FP16 = ''float16'',
             TOKEN_SEPARATOR = '' ''\<rparr>;
        bs = \<lparr>score_type = ''logprob'', softmax_temperature = Some 2,
              length_penalty = (\<lambda>_. 1), brevity_penalty = (\<lambda>_ _. 0),
              constant_length_ratio = None\<rparr>;
        logits = [[[0, 0, 0, 0], [0, 0, 0, 0], [0, 0, 0, 0]]];
        labels = [[1, 2, 0]]
    in length_penalty bs = (\<lambda>_. 1) \<and> brevity_penalty bs = (\<lambda>_ _. 0)
     \<and> ''logprob'' \<noteq> SCORING_TYPE_NEGLOGPROB C
     \<and> hybrid_forward C (bs\<lparr>score_type := SCORING_TYPE_NEGLOGPROB C\<rparr>) logits labels [0] [2] [3]
         = map fneg (hybrid_forward C (bs\<lparr>score_type := ''logprob''\<rparr>) logits labels [0] [2] [3])
     \<and> hybrid_forward C (bs\<lparr>score_type := ''logprob''\<rparr>) logits labels [0] [2] [3]
         = [Float (2 * ln (1 / 4))])"
  using C9_neglogprob_is_negated_logprob
    [of "\<lparr>score_type = ''logprob'', softmax_temperature = Some 2,
          length_penalty = (\<lambda>_. 1), brevity_penalty = (\<lambda>_ _. 0),
          constant_length_ratio = None\<rparr>"
        "''logprob''"
        "\<lparr>PAD_ID = 0, SCORING_TYPE_NEGLOGPROB = ''neglogprob'', DTYPE_FP16 = ''float16'',
          TOKEN_SEPARATOR = '' ''\<rparr>"
        "[[[0, 0, 0, 0], [0, 0, 0, 0], [0, 0, 0, 0]]]" "[[1, 2, 0]]" "[0]" "[2]" "[3]"]
  by (simp add: Let_def hybrid_forward_def softmax_def pick_def fdiv_def fsub_def fneg_def)

subsection \<open>The log-probability score\<close>

lemma pick_in_range: "i < length xs \<Longrightarrow> pick xs i = xs ! i"
proof -
  assume "i < length xs"
  then have "min i (length xs - 1) = i" by arith
  then show ?thesis by (simp add: pick_def)
qed

lemma row_score:
  assumes len: "length lab = length lg"
    and rng: "\<forall>t<length lab. lab ! t \<noteq> 0 \<longrightarrow> lab ! t < length (lg ! t)"
  shows "sum_list (map2 (\<lambda>label ts. if label \<noteq> 0 then ts else 0) lab
            (map ln (map2 pick (map softmax
               (case temp of Some T \<Rightarrow> map (map (\<lambda>x. x / T)) lg | None \<Rightarrow> lg)) lab)))
         = gold_logprob_sum temp lg lab"
proof -
  have "map2 (\<lambda>label ts. if label \<noteq> 0 then ts else 0) lab
            (map ln (map2 pick (map softmax
               (case temp of Some T \<Rightarrow> map (map (\<lambda>x. x / T)) lg | None \<Rightarrow> lg)) lab))
      = map (\<lambda>t. if lab ! t \<noteq> 0
        then ln (softmax (case temp of
                            None \<Rightarrow> lg ! t
                          | Some T \<Rightarrow> map (\<lambda>x. x / T) (lg ! t)) ! (lab ! t))
        else 0) [0..<length lab]"
    using len rng
    by (intro nth_equalityI) (auto simp: pick_in_range softmax_def split: option.splits)
  then show ?thesis by (simp add: gold_logprob_sum_def)
qed

text \<open>
  Claim C2. When the brevity penalty is the constant 0 function, the length penalty the
  constant 1 function and the score type is log-probability (not negative-log-probability),
  the score of every sentence of a batch whose arrays have matching shapes and whose non-PAD
  labels lie inside the vocabulary is \<open>gold_logprob_sum\<close>: the sum over the steps whose
  label is not PAD (id 0) of the logarithm of the softmax probability of the gold label,
  the logits divided by the temperature when one is set; a step labelled PAD adds zero.
\<close>

theorem C2_logprob_score_is_gold_sum:
  assumes lp: "length_penalty self = (\<lambda>_. 1)" and bp: "brevity_penalty self = (\<lambda>_ _. 0)"
    and st: "score_type self \<noteq> SCORING_TYPE_NEGLOGPROB C"
    and shape: "length labels = length logits" "length length_ratio = length logits"
      "length source_length = length logits" "length target_length = length logits"
    and rows: "\<forall>b<length logits. length (labels ! b) = length (logits ! b) \<and>
       (\<forall>t<length (labels ! b). labels ! b ! t \<noteq> 0 \<longrightarrow> labels ! b ! t < length (logits ! b ! t))"
  shows "hybrid_forward C self logits labels length_ratio source_length target_length
       = map Float (map2 (gold_logprob_sum (softmax_temperature self)) logits labels)"
proof (rule nth_equalityI)
  show "length (hybrid_forward C self logits labels length_ratio source_length target_length)
      = length (map Float (map2 (gold_logprob_sum (softmax_temperature self)) logits labels))"
    using shape by (simp add: hybrid_forward_def Let_def split: option.splits)
next
  fix b
  assume "b < length (hybrid_forward C self logits labels length_ratio source_length target_length)"
  then have b: "b < length logits"
    using shape by (simp add: hybrid_forward_def Let_def split: option.splits)
  have row: "sum_list (map2 (\<lambda>label ts. if label \<noteq> 0 then ts else 0) (labels ! b)
            (map ln (map2 pick (map softmax
               (case softmax_temperature self of Some T \<Rightarrow> map (map (\<lambda>x. x / T)) (logits ! b)
                | None \<Rightarrow> logits ! b)) (labels ! b))))
         = gold_logprob_sum (softmax_temperature self) (logits ! b) (labels ! b)"
    using rows b by (intro row_score) auto
  show "hybrid_forward C self logits labels length_ratio source_length target_length ! b
      = map Float (map2 (gold_logprob_sum (softmax_temperature self)) logits labels) ! b"
    using b shape st row
    by (simp add: hybrid_forward_def Let_def lp bp fdiv_def fsub_def split: option.splits)
qed

theorem C2_logprob_score_is_gold_sum_witness:
  "(let C = \<lparr>PAD_ID = 0, SCORING_TYPE_NEGLOGPROB = ''neglogprob'', DTYPE_FP16 = ''float16'',
             TOKEN_SEPARATOR = '' ''\<rparr>;
        bs = \<lparr>score_type = ''logprob'', softmax_temperature = Some 2,
              length_penalty = (\<lambda>_. 1), brevity_penalty = (\<lambda>_ _. 0),
              constant_length_ratio = None\<rparr>;
        logits = [[[0, 0, 0, 0], [0, 0, 0, 0], [0, 0, 0, 0]], [[0, 0, 0, 0], [0, 0, 0, 0], [0, 0, 0, 0]]];
        labels = [[1, 2, 0], [3, 0, 0]]
    in length_penalty bs = (\<lambda>_. 1) \<and> brevity_penalty bs = (\<lambda>_ _. 0)
     \<and> score_type bs \<noteq> SCORING_TYPE_NEGLOGPROB C
     \<and> hybrid_forward C bs logits labels [0, 0] [2, 1] [3, 2]
         = map Float (map2 (gold_logprob_sum (softmax_temperature bs)) logits labels)
     \<and> hybrid_forward C bs logits labels [0, 0] [2, 1] [3, 2]
         = [Float (2 * ln (1 / 4)), Float (ln (1 / 4))])"
  using C2_logprob_score_is_gold_sum
    [of "\<lparr>score_type = ''logprob'', softmax_temperature = Some 2,
          length_penalty = (\<lambda>_. 1), brevity_penalty = (\<lambda>_ _. 0),
          constant_length_ratio = None\<rparr>"
        "\<lparr>PAD_ID = 0, SCORING_TYPE_NEGLOGPROB = ''neglogprob'', DTYPE_FP16 = ''float16'',
          TOKEN_SEPARATOR = '' ''\<rparr>"
        "[[1, 2, 0], [3, 0, 0]]"
        "[[[0, 0, 0, 0], [0, 0, 0, 0], [0, 0, 0, 0]], [[0, 0, 0, 0], [0, 0, 0, 0], [0, 0, 0, 0]]]"
        "[0, 0]" "[2, 1]" "[3, 2]"]
  by (simp add: Let_def hybrid_forward_def softmax_def pick_def fdiv_def fsub_def less_Suc_eq
      all_conj_distrib)

subsection \<open>Construction\<close>

text \<open>
  Claim C6, as the code has it. Constructing a BatchScorer never fails and validates
  nothing: whatever the score type and the softmax temperature are (a score type that is
  neither log-probability nor negative-log-probability and a temperature that is not
  positive included), the construction succeeds and stores the arguments as given.
\<close>

theorem C6_construction_stores_arguments:
  "BatchScorer_init lp bp st temperature ratio =
     Inr \<lparr>score_type = st, softmax_temperature = temperature, length_penalty = lp,
          brevity_penalty = bp, constant_length_ratio = ratio\<rparr>"
  by (simp add: BatchScorer_init_def)

theorem C6_invalid_configuration_accepted:
  "\<not> (\<exists>e. BatchScorer_init (\<lambda>_. 1) (\<lambda>_ _. 0) ''bogus'' (Some (- 1)) None = Inl e)"
  by (simp add: BatchScorer_init_def)

subsection \<open>The constant length ratio\<close>

text \<open>
  Claim C1 at a concrete input. The scorer has \<open>constant_length_ratio = 1\<close> and a brevity
  penalty \<open>min 0 (1 - reference / hypothesis)\<close>; the batch has one sentence. Two models that
  return the same logits and differ only in the predicted length ratio (0 and 1) give
  different scores: the constant is added to the predicted ratio, it does not replace it.
\<close>

theorem C1_constant_ratio_is_added:
  "(let C = \<lparr>PAD_ID = 0, SCORING_TYPE_NEGLOGPROB = ''neglogprob'', DTYPE_FP16 = ''float16'',
             TOKEN_SEPARATOR = '' ''\<rparr>;
        bs = \<lparr>score_type = ''logprob'', softmax_temperature = None,
              length_penalty = (\<lambda>_. 1),
              brevity_penalty = (\<lambda>hyp_len ref_len. min 0 (1 - ref_len / hyp_len)),
              constant_length_ratio = Some 1\<rparr>;
        m = (\<lambda>ratio. \<lparr>model_dtype = ''float32'',
               forward = (\<lambda>_. Inr \<lparr>LOGITS_NAME = [[[0, 0, 0, 0], [0, 0, 0, 0], [0, 0, 0, 0]]],
                                     LENRATIO_NAME = Some [ratio]\<rparr>)\<rparr>);
        self = (\<lambda>ratio. \<lparr>source_vocab_inv = Map.empty, target_vocab_inv = Map.empty,
                  model = m ratio, batch_scorer = bs, scorer_context = (), exclude_list = {}\<rparr>);
        b = \<lparr>batch_source = NDArray ''float32'' [[[1], [3]]],
             batch_source_length = NDArray ''float32'' [2],
             batch_target = NDArray ''float32'' [[1, 3, 2]],
             batch_target_length = NDArray ''float32'' [3],
             batch_labels = \<lparr>TARGET_LABEL_NAME = NDArray ''float32'' [[3, 2, 1]]\<rparr>\<rparr>
    in score_batch C single_shard (self 0) b = Inr [Float (3 * ln (1 / 4))]
     \<and> score_batch C single_shard (self 1) b = Inr [Float (3 * ln (1 / 4) + 1)])"
  by (simp add: score_batch_def single_shard_def score_shard_def bind_def unpack4_def
      star_args_def call_model_def hybrid_forward_def Let_def softmax_def pick_def
      fdiv_def fsub_def)

section \<open>Properties of Scorer.score\_batch\<close>

subsection \<open>Reduced precision\<close>

text \<open>
  Claim C7 at a concrete input. One batch, one shard, a model that answers every call with
  four arguments. With the model's dtype \<open>float32\<close> the batch is scored; with the dtype
  \<open>float16\<close> the generator of the casts is used up by the unpacking into source, source
  length, target and target length, the model is called with no argument, and the call
  fails with a TypeError.
\<close>

theorem C7_fp16_model_called_without_arguments:
  "(let C = \<lparr>PAD_ID = 0, SCORING_TYPE_NEGLOGPROB = ''neglogprob'', DTYPE_FP16 = ''float16'',
             TOKEN_SEPARATOR = '' ''\<rparr>;
        bs = \<lparr>score_type = ''logprob'', softmax_temperature = None,
              length_penalty = (\<lambda>_. 1), brevity_penalty = (\<lambda>_ _. 0),
              constant_length_ratio = None\<rparr>;
        m = (\<lambda>d. \<lparr>model_dtype = d,
               forward = (\<lambda>_. Inr \<lparr>LOGITS_NAME = [[[0, 0, 0, 0], [0, 0, 0, 0], [0, 0, 0, 0]]],
                                     LENRATIO_NAME = None\<rparr>)\<rparr>);
        self = (\<lambda>d. \<lparr>source_vocab_inv = Map.empty, target_vocab_inv = Map.empty,
                  model = m d, batch_scorer = bs, scorer_context = (), exclude_list = {}\<rparr>);
        b = \<lparr>batch_source = NDArray ''float32'' [[[1], [3]]],
             batch_source_length = NDArray ''float32'' [2],
             batch_target = NDArray ''float32'' [[1, 3, 2]],
             batch_target_length = NDArray ''float32'' [3],
             batch_labels = \<lparr>TARGET_LABEL_NAME = NDArray ''float32'' [[3, 2, 1]]\<rparr>\<rparr>
    in score_batch C single_shard (self ''float32'') b = Inr [Float (3 * ln (1 / 4))]
     \<and> score_batch C single_shard (self ''float16'') b = Inl TypeError)"
  by (simp add: score_batch_def single_shard_def score_shard_def bind_def unpack4_def
      star_args_def call_model_def hybrid_forward_def Let_def softmax_def pick_def
      fdiv_def fsub_def)

subsection \<open>Sharding\<close>

lemma hybrid_forward_append:
  assumes "length lab1 = length lg1" "length lr1 = length lg1" "length sl1 = length lg1"
    "length tl1 = length lg1"
  shows "hybrid_forward C bs (lg1 @ lg2) (lab1 @ lab2) (lr1 @ lr2) (sl1 @ sl2) (tl1 @ tl2)
       = hybrid_forward C bs lg1 lab1 lr1 sl1 tl1 @ hybrid_forward C bs lg2 lab2 lr2 sl2 tl2"
  using assms
  by (simp add: hybrid_forward_def Let_def split: option.splits)

lemma hybrid_forward_length:
  assumes "length lab = length lg" "length lr = length lg" "length sl = length lg"
    "length tlen = length lg"
  shows "length (hybrid_forward C bs lg lab lr sl tlen) = length lg"
  using assms
  by (simp add: hybrid_forward_def Let_def split: option.splits)


lemma score_shards_all:
  assumes "\<And>shard. score_shard C self shard = Inr (ss shard)"
  shows "score_shards C self shards acc = Inr (acc @ map ss shards)"
  by (induction shards arbitrary: acc) (simp_all add: assms bind_def)

lemmas example_defs = example_constants_def example_scorer_def example_batch_def
  one_row_shards_def single_shard_def

lemmas eval_defs = score_def score_batch_def score_shard_def bind_def
  unpack4_def star_args_def call_model_def rowwise_model_def rows_of_def hybrid_forward_def
  softmax_def pick_def fdiv_def fsub_def initial_state_def truediv_def Let_def
  sentence_output_def first_def

text \<open>
  Claim C4. For every batch and every partition of it into K \<open>\<ge>\<close> 1 shards that cover its rows
  disjointly in index order, with a model in full precision that treats the rows of its
  input independently, \<open>score_batch\<close> returns the concatenation of the shards' scores in
  shard index order: one score per row of the batch, and the same vector as with a single
  shard (K = 1).
\<close>

theorem C4_sharding_preserves_scores:
  assumes rowwise: "forward (model self) = rowwise_model f g"
    and dtype: "model_dtype (model self) \<noteq> DTYPE_FP16 C"
    and part: "partitions (split_and_load (scorer_context self) b) b"
  shows "score_batch C split_and_load self b = score_batch C single_shard self b \<and>
         (\<exists>scores. score_batch C split_and_load self b = Inr scores \<and>
            length scores = length (asnumpy (batch_source b)))"
proof -
  define S :: "inputs \<times> labels_dict \<Rightarrow> _" where
    "S = (\<lambda>((s, sl, t, tlen), l). asnumpy s)"
  define SL :: "inputs \<times> labels_dict \<Rightarrow> _" where
    "SL = (\<lambda>((s, sl, t, tlen), l). asnumpy sl)"
  define T :: "inputs \<times> labels_dict \<Rightarrow> _" where
    "T = (\<lambda>((s, sl, t, tlen), l). asnumpy t)"
  define TL :: "inputs \<times> labels_dict \<Rightarrow> _" where
    "TL = (\<lambda>((s, sl, t, tlen), l). asnumpy tlen)"
  define L :: "inputs \<times> labels_dict \<Rightarrow> _" where
    "L = (\<lambda>((s, sl, t, tlen), l). asnumpy (TARGET_LABEL_NAME l))"
  define hf where "hf = (\<lambda>s sl t tlen l.
     hybrid_forward C (batch_scorer self) (map f (zip s (zip sl (zip t tlen)))) l
       (case g of Some h \<Rightarrow> map h (zip s (zip sl (zip t tlen))) | None \<Rightarrow> map (\<lambda>_. 0) sl)
       sl tlen)"
  define ss where "ss = (\<lambda>shard. hf (S shard) (SL shard) (T shard) (TL shard) (L shard))"
  have shard: "score_shard C self shard = Inr (ss shard)" for shard
  proof -
    obtain s sl t tlen l where sh: "shard = ((s, sl, t, tlen), l)"
      by (cases shard) auto
    show ?thesis
      unfolding sh using rowwise dtype
      by (cases g) (simp_all add: score_shard_def unpack4_def star_args_def call_model_def
          bind_def rowwise_model_def rows_of_def ss_def hf_def S_def SL_def T_def TL_def L_def)
  qed
  have shards: "score_shards C self shards [] = Inr (map ss shards)" for shards
    using score_shards_all[of C self ss shards "[]"] shard by simp
  have hf_app: "hf (s1 @ s2) (sl1 @ sl2) (t1 @ t2) (tl1 @ tl2) (l1 @ l2)
      = hf s1 sl1 t1 tl1 l1 @ hf s2 sl2 t2 tl2 l2"
    if "length sl1 = length s1" "length t1 = length s1" "length tl1 = length s1"
      "length l1 = length s1" for s1 s2 sl1 sl2 t1 t2 tl1 tl2 l1 l2
    unfolding hf_def using that
    by (cases g) (simp_all add: hybrid_forward_append)
  have hf_len: "length (hf s sl t tlen l) = length s"
    if "length sl = length s" "length t = length s" "length tlen = length s"
      "length l = length s" for s sl t tlen l
    unfolding hf_def using that
    by (cases g) (simp_all add: hybrid_forward_length)
  have al: "length (SL shard) = length (S shard) \<and> length (T shard) = length (S shard) \<and>
      length (TL shard) = length (S shard) \<and> length (L shard) = length (S shard)"
    if "aligned shard" for shard
    using that by (auto simp: aligned_def S_def SL_def T_def TL_def L_def split: prod.splits)
  have glue: "hf (concat (map S shards)) (concat (map SL shards)) (concat (map T shards))
        (concat (map TL shards)) (concat (map L shards)) = concat (map ss shards) \<and>
      length (concat (map SL shards)) = length (concat (map S shards)) \<and>
      length (concat (map T shards)) = length (concat (map S shards)) \<and>
      length (concat (map TL shards)) = length (concat (map S shards)) \<and>
      length (concat (map L shards)) = length (concat (map S shards))"
    if "list_all aligned shards" for shards
    using that
  proof (induction shards)
    case Nil
    show ?case by (simp add: hf_def hybrid_forward_def split: option.splits)
  next
    case (Cons shard shards)
    from Cons.prems have "aligned shard" "list_all aligned shards" by simp_all
    from al[OF this(1)] Cons.IH[OF this(2)] show ?case
      by (simp add: hf_app ss_def)
  qed
  let ?shards = "split_and_load (scorer_context self) b"
  from part have ne: "?shards \<noteq> []" and aligned: "list_all aligned ?shards"
    and cols: "asnumpy (batch_source b) = concat (map S ?shards)"
      "asnumpy (batch_source_length b) = concat (map SL ?shards)"
      "asnumpy (batch_target b) = concat (map T ?shards)"
      "asnumpy (batch_target_length b) = concat (map TL ?shards)"
      "asnumpy (TARGET_LABEL_NAME (batch_labels b)) = concat (map L ?shards)"
    unfolding partitions_def S_def SL_def T_def TL_def L_def by simp_all
  have split: "score_batch C split_and_load self b = Inr (concat (map ss ?shards))"
    unfolding score_batch_def shards using ne by (simp add: bind_def)
  have single: "score_batch C single_shard self b
      = Inr (hf (asnumpy (batch_source b)) (asnumpy (batch_source_length b))
               (asnumpy (batch_target b)) (asnumpy (batch_target_length b))
               (asnumpy (TARGET_LABEL_NAME (batch_labels b))))"
    unfolding score_batch_def shards
    by (simp add: bind_def single_shard_def ss_def S_def SL_def T_def TL_def L_def)
  from glue[OF aligned] have same: "hf (asnumpy (batch_source b)) (asnumpy (batch_source_length b))
               (asnumpy (batch_target b)) (asnumpy (batch_target_length b))
               (asnumpy (TARGET_LABEL_NAME (batch_labels b))) = concat (map ss ?shards)"
    and lens: "length (asnumpy (batch_source_length b)) = length (asnumpy (batch_source b))"
      "length (asnumpy (batch_target b)) = length (asnumpy (batch_source b))"
      "length (asnumpy (batch_target_length b)) = length (asnumpy (batch_source b))"
      "length (asnumpy (TARGET_LABEL_NAME (batch_labels b))) = length (asnumpy (batch_source b))"
    unfolding cols by simp_all
  from hf_len[OF lens] same have "length (concat (map ss ?shards)) = length (asnumpy (batch_source b))"
    by simp
  with split single same show ?thesis by simp
qed

theorem C4_sharding_preserves_scores_witness:
  "forward (model example_scorer)
      = rowwise_model (\<lambda>_. [[0, 0, 0, 0], [0, 0, 0, 0], [0, 0, 0, 0]]) None \<and>
   model_dtype (model example_scorer) \<noteq> DTYPE_FP16 example_constants \<and>
   partitions (one_row_shards (scorer_context example_scorer) example_batch) example_batch \<and>
   length (one_row_shards (scorer_context example_scorer) example_batch) = 2 \<and>
   score_batch example_constants one_row_shards example_scorer example_batch
      = score_batch example_constants single_shard example_scorer example_batch \<and>
   score_batch example_constants one_row_shards example_scorer example_batch
      = Inr [Float (2 * ln (1 / 4)), Float 0]"
proof -
  have h1: "forward (model example_scorer)
      = rowwise_model (\<lambda>_. [[0, 0, 0, 0], [0, 0, 0, 0], [0, 0, 0, 0]]) None"
    by (simp add: example_defs)
  have h2: "model_dtype (model example_scorer) \<noteq> DTYPE_FP16 example_constants"
    by (simp add: example_defs)
  have h3: "partitions (one_row_shards (scorer_context example_scorer) example_batch) example_batch"
    by (simp add: example_defs partitions_def aligned_def upt_rec_numeral)
  have h4: "length (one_row_shards (scorer_context example_scorer) example_batch) = 2"
    by (simp add: example_defs)
  have h5: "score_batch example_constants single_shard example_scorer example_batch
      = Inr [Float (2 * ln (1 / 4)), Float 0]"
    by (simp add: example_defs eval_defs)
  from C4_sharding_preserves_scores[where split_and_load = one_row_shards, OF h1 h2 h3] h1 h2 h3 h4 h5 show ?thesis by simp
qed

section \<open>Properties of Scorer.score\<close>

subsection \<open>The loops\<close>

lemma score_sentences_result:
  "score_sentences C self bt trips st = (r, st') \<Longrightarrow>
   \<exists>hs. st' = st\<lparr>sentence_no := sentence_no st + length hs + (if r = None then 0 else 1),
                  output_handler := output_handler st @ hs\<rparr>
      \<and> length hs \<le> length trips \<and> (r = None \<longrightarrow> length hs = length trips)
      \<and> (\<forall>k<length hs. sentence_output C self (sentence_no st + Suc k) bt (trips ! k) = Inr (hs ! k))"
proof (induction trips arbitrary: st)
  case Nil
  then show ?case by auto
next
  case (Cons trip trips)
  let ?st1 = "st\<lparr>sentence_no := sentence_no st + 1\<rparr>"
  show ?case
  proof (cases "sentence_output C self (sentence_no st + 1) bt trip")
    case (Inl e)
    with Cons.prems have "r = Some e" "st' = ?st1" by (simp_all add: Let_def)
    then show ?thesis by (intro exI[of _ "[]"]) simp
  next
    case (Inr h)
    let ?st2 = "?st1\<lparr>output_handler := output_handler ?st1 @ [h]\<rparr>"
    from Cons.prems Inr have "score_sentences C self bt trips ?st2 = (r, st')"
      by (simp add: Let_def)
    from Cons.IH[OF this] obtain hs where
      st': "st' = ?st2\<lparr>sentence_no := sentence_no ?st2 + length hs + (if r = None then 0 else 1),
                  output_handler := output_handler ?st2 @ hs\<rparr>"
      and len: "length hs \<le> length trips" "r = None \<longrightarrow> length hs = length trips"
      and nth: "\<forall>k<length hs. sentence_output C self (sentence_no ?st2 + Suc k) bt (trips ! k) = Inr (hs ! k)"
      by blast
    have "\<forall>k<length (h # hs). sentence_output C self (sentence_no st + Suc k) bt ((trip # trips) ! k)
        = Inr ((h # hs) ! k)"
    proof (intro allI impI)
      fix k assume k: "k < length (h # hs)"
      show "sentence_output C self (sentence_no st + Suc k) bt ((trip # trips) ! k) = Inr ((h # hs) ! k)"
      proof (cases k)
        case 0
        with Inr show ?thesis by simp
      next
        case (Suc j)
        with k nth show ?thesis by simp
      qed
    qed
    with st' len show ?thesis
      by (intro exI[of _ "h # hs"]) simp
  qed
qed


lemma score_loop_Cons_cases:
  assumes run: "score_loop C sal self clock ((i, b) # rest) st = (r, st')"
  obtains (batch_error) e where "score_batch C sal self b = Inl e" "r = Some e"
      "output_handler st' = output_handler st"
  | (sentence_error) scores e hs where "score_batch C sal self b = Inr scores" "r = Some e"
      "output_handler st' = output_handler st @ hs"
      "length hs \<le> length (zip (asnumpy (batch_source b)) (zip (asnumpy (batch_target b)) scores))"
      "\<forall>k<length hs. sentence_output C self (sentence_no st + Suc k)
          (clock (time_calls st + 1) - clock (time_calls st))
          (zip (asnumpy (batch_source b)) (zip (asnumpy (batch_target b)) scores) ! k) = Inr (hs ! k)"
  | (continue) scores hs st1 where "score_batch C sal self b = Inr scores"
      "st1 = st\<lparr>batch_no := i, time_calls := time_calls st + 2,
          total_time := total_time st + (clock (time_calls st + 1) - clock (time_calls st)),
          sentence_no := sentence_no st + length hs,
          output_handler := output_handler st @ hs\<rparr>"
      "length hs = length (zip (asnumpy (batch_source b)) (zip (asnumpy (batch_target b)) scores))"
      "\<forall>k<length hs. sentence_output C self (sentence_no st + Suc k)
          (clock (time_calls st + 1) - clock (time_calls st))
          (zip (asnumpy (batch_source b)) (zip (asnumpy (batch_target b)) scores) ! k) = Inr (hs ! k)"
      "score_loop C sal self clock rest st1 = (r, st')"
proof (cases "score_batch C sal self b")
  case (Inl e)
  with run have "r = Some e" "output_handler st' = output_handler st"
    by (auto simp: Let_def)
  with Inl show ?thesis by (rule batch_error)
next
  case (Inr scores)
  let ?bt = "clock (time_calls st + 1) - clock (time_calls st)"
  let ?st0 = "st\<lparr>batch_no := i, time_calls := time_calls st + 2, total_time := total_time st + ?bt\<rparr>"
  let ?trips = "zip (asnumpy (batch_source b)) (zip (asnumpy (batch_target b)) scores)"
  obtain r1 st1 where inner: "score_sentences C self ?bt ?trips ?st0 = (r1, st1)"
    by (cases "score_sentences C self ?bt ?trips ?st0") blast
  from score_sentences_result[OF inner] obtain hs where
    st1: "st1 = ?st0\<lparr>sentence_no := sentence_no ?st0 + length hs + (if r1 = None then 0 else 1),
                  output_handler := output_handler ?st0 @ hs\<rparr>"
    and len: "length hs \<le> length ?trips" "r1 = None \<longrightarrow> length hs = length ?trips"
    and nth: "\<forall>k<length hs. sentence_output C self (sentence_no ?st0 + Suc k) ?bt (?trips ! k) = Inr (hs ! k)"
    by blast
  have nth': "\<forall>k<length hs. sentence_output C self (sentence_no st + Suc k) ?bt (?trips ! k) = Inr (hs ! k)"
    using nth by simp
  have unfolded: "score_loop C sal self clock ((i, b) # rest) st =
      (case r1 of Some e \<Rightarrow> (Some e, st1) | None \<Rightarrow> score_loop C sal self clock rest st1)"
    using Inr inner by (simp add: Let_def numeral_2_eq_2 split: option.splits)
  show ?thesis
  proof (cases r1)
    case None
    with unfolded run have "score_loop C sal self clock rest st1 = (r, st')" by simp
    moreover from st1 None have "st1 = st\<lparr>batch_no := i, time_calls := time_calls st + 2,
          total_time := total_time st + ?bt,
          sentence_no := sentence_no st + length hs,
          output_handler := output_handler st @ hs\<rparr>" by simp
    ultimately show ?thesis using Inr len None nth' by (intro continue[of scores st1 hs]) auto
  next
    case (Some e)
    with unfolded run have "r = Some e" "st' = st1" by simp_all
    with st1 have "output_handler st' = output_handler st @ hs" by simp
    with Inr \<open>r = Some e\<close> len nth' show ?thesis by (intro sentence_error[of scores e hs]) auto
  qed
qed



lemma emitted_from_batch:
  assumes len: "length hs \<le> length trips"
    and nth: "\<forall>k<length hs. sentence_output C self (n0 + Suc k) bt (trips ! k) = Inr (hs ! k)"
    and h: "h \<in> set hs"
  shows "\<exists>sentence n bt. sentence \<in> set trips \<and> sentence_output C self n bt sentence = Inr h"
proof -
  from h obtain k where k: "k < length hs" "h = hs ! k" by (auto simp: in_set_conv_nth)
  with len have "trips ! k \<in> set trips" by simp
  moreover from k nth have "sentence_output C self (n0 + Suc k) bt (trips ! k) = Inr h" by simp
  ultimately show ?thesis by blast
qed

lemma score_loop_origin:
  "score_loop C sal self clock ibs st = (r, st') \<Longrightarrow>
   \<exists>hs. output_handler st' = output_handler st @ hs \<and>
     (\<forall>h\<in>set hs. \<exists>b\<in>set (map snd ibs). \<exists>scores sentence n bt.
        score_batch C sal self b = Inr scores \<and>
        sentence \<in> set (zip (asnumpy (batch_source b)) (zip (asnumpy (batch_target b)) scores)) \<and>
        sentence_output C self n bt sentence = Inr h)"
proof (induction ibs arbitrary: st)
  case Nil
  then show ?case by simp
next
  case (Cons ib rest)
  obtain i b where ib: "ib = (i, b)" by (cases ib)
  let ?P = "\<lambda>bs h. \<exists>b\<in>set bs. \<exists>scores sentence n bt.
        score_batch C sal self b = Inr scores \<and>
        sentence \<in> set (zip (asnumpy (batch_source b)) (zip (asnumpy (batch_target b)) scores)) \<and>
        sentence_output C self n bt sentence = Inr h"
  have here: "?P (map snd (ib # rest)) h"
    if "score_batch C sal self b = Inr scores"
      and "\<exists>sentence n bt.
        sentence \<in> set (zip (asnumpy (batch_source b)) (zip (asnumpy (batch_target b)) scores)) \<and>
        sentence_output C self n bt sentence = Inr h" for scores h
    using that unfolding ib by (intro bexI[of _ b]) auto
  have later: "?P (map snd (ib # rest)) h" if "?P (map snd rest) h" for h
    using that by auto
  from Cons.prems[unfolded ib] show ?case
  proof (cases rule: score_loop_Cons_cases)
    case (batch_error e)
    then show ?thesis by simp
  next
    case (sentence_error scores e hs)
    have "\<forall>h\<in>set hs. ?P (map snd (ib # rest)) h"
      using here[OF sentence_error(1) emitted_from_batch[OF sentence_error(4,5)]] by blast
    with sentence_error(3) show ?thesis by blast
  next
    case (continue scores hs st1)
    from continue(3) have le: "length hs \<le> length (zip (asnumpy (batch_source b))
        (zip (asnumpy (batch_target b)) scores))" by simp
    have first_part: "\<forall>h\<in>set hs. ?P (map snd (ib # rest)) h"
      using here[OF continue(1) emitted_from_batch[OF le continue(4)]] by blast
    from Cons.IH[OF continue(5)] obtain hs2 where
      out: "output_handler st' = output_handler st1 @ hs2"
      and rest: "\<forall>h\<in>set hs2. ?P (map snd rest) h"
      by blast
    from out continue(2) have "output_handler st' = output_handler st @ (hs @ hs2)" by simp
    moreover have "\<forall>h\<in>set (hs @ hs2). ?P (map snd (ib # rest)) h"
    proof
      fix h assume "h \<in> set (hs @ hs2)"
      then consider "h \<in> set hs" | "h \<in> set hs2" by auto
      then show "?P (map snd (ib # rest)) h"
      proof cases
        case 1
        with first_part show ?thesis by blast
      next
        case 2
        with rest have "?P (map snd rest) h" by blast
        then show ?thesis by (rule later)
      qed
    qed
    ultimately show ?thesis by blast
  qed
qed


lemma score_loop_counters:
  "score_loop C sal self clock (enumerate i bs) st = (None, st') \<Longrightarrow>
   \<exists>hs. output_handler st' = output_handler st @ hs
     \<and> sentence_no st' = sentence_no st + length hs
     \<and> batch_no st' = (if bs = [] then batch_no st else i + length bs - 1)
     \<and> time_calls st' = time_calls st + 2 * length bs
     \<and> total_time st' = total_time st +
          (\<Sum>k<length bs. clock (time_calls st + 2 * k + 1) - clock (time_calls st + 2 * k))"
proof (induction bs arbitrary: i st)
  case Nil
  then show ?case by simp
next
  case (Cons b bs)
  from Cons.prems have "score_loop C sal self clock ((i, b) # enumerate (Suc i) bs) st = (None, st')"
    by simp
  then show ?case
  proof (cases rule: score_loop_Cons_cases)
    case (continue scores hs st1)
    from Cons.IH[OF continue(5)] obtain hs2 where
      out: "output_handler st' = output_handler st1 @ hs2"
      and sn: "sentence_no st' = sentence_no st1 + length hs2"
      and bn: "batch_no st' = (if bs = [] then batch_no st1 else Suc i + length bs - 1)"
      and tc: "time_calls st' = time_calls st1 + 2 * length bs"
      and tt: "total_time st' = total_time st1 +
          (\<Sum>k<length bs. clock (time_calls st1 + 2 * k + 1) - clock (time_calls st1 + 2 * k))"
      by blast
    have st1: "output_handler st1 = output_handler st @ hs" "sentence_no st1 = sentence_no st + length hs"
      "batch_no st1 = i" "time_calls st1 = time_calls st + 2"
      "total_time st1 = total_time st + (clock (time_calls st + 1) - clock (time_calls st))"
      using continue(2) by simp_all
    have a: "output_handler st' = output_handler st @ (hs @ hs2)"
      using out st1 by simp
    have b: "sentence_no st' = sentence_no st + length (hs @ hs2)"
      using sn st1 by simp
    have c: "batch_no st' = (if b # bs = [] then batch_no st else i + length (b # bs) - 1)"
      using bn st1 by simp
    have d: "time_calls st' = time_calls st + 2 * length (b # bs)"
      using tc st1 by simp
    define g where "g = (\<lambda>k. clock (time_calls st + 2 * k + 1) - clock (time_calls st + 2 * k))"
    have shift: "(\<Sum>k<Suc (length bs). g k) = g 0 + (\<Sum>k<length bs. g (Suc k))"
      by (rule sum.lessThan_Suc_shift)
    have g_Suc: "g (Suc k) = clock (time_calls st1 + 2 * k + 1) - clock (time_calls st1 + 2 * k)" for k
      by (simp add: g_def st1)
    have "total_time st' = total_time st + (g 0 + (\<Sum>k<length bs. g (Suc k)))"
      unfolding tt g_Suc using st1 by (simp add: g_def)
    then have tt': "total_time st' = total_time st + (\<Sum>k<Suc (length bs). g k)"
      by (simp only: shift)
    have len: "length (b # bs) = Suc (length bs)" by simp
    from tt' have e: "total_time st' = total_time st +
          (\<Sum>k<length (b # bs). clock (time_calls st + 2 * k + 1) - clock (time_calls st + 2 * k))"
      unfolding len g_def by assumption
    from a b c d e show ?thesis by blast
  qed simp_all
qed


lemma score_loop_order:
  assumes run: "score_loop C sal self clock ibs st = (None, st')"
    and wf: "\<forall>b\<in>set (map snd ibs).
       length (asnumpy (batch_target b)) = length (asnumpy (batch_source b)) \<and>
       (\<forall>scores. score_batch C sal self b = Inr scores \<longrightarrow>
          length scores = length (asnumpy (batch_source b)))"
  shows "\<exists>hs. output_handler st' = output_handler st @ hs \<and>
     length hs = length (concat (map (\<lambda>b. zip (asnumpy (batch_source b)) (asnumpy (batch_target b)))
                    (map snd ibs))) \<and>
     (\<forall>k<length hs. \<exists>raw bt.
        sentence_output C self (sentence_no st + Suc k) bt
          (fst (concat (map (\<lambda>b. zip (asnumpy (batch_source b)) (asnumpy (batch_target b)))
                    (map snd ibs)) ! k),
           snd (concat (map (\<lambda>b. zip (asnumpy (batch_source b)) (asnumpy (batch_target b)))
                    (map snd ibs)) ! k), raw) = Inr (hs ! k))"
  using run wf
proof (induction ibs arbitrary: st)
  case Nil
  then show ?case by simp
next
  case (Cons ib rest)
  obtain i b where ib: "ib = (i, b)" by (cases ib)
  let ?sents = "\<lambda>ibs. concat (map (\<lambda>b. zip (asnumpy (batch_source b)) (asnumpy (batch_target b)))
                    (map snd ibs))"
  let ?here = "zip (asnumpy (batch_source b)) (asnumpy (batch_target b))"
  have sents: "?sents (ib # rest) = ?here @ ?sents rest" by (simp add: ib)
  from Cons.prems(1)[unfolded ib] show ?case
  proof (cases rule: score_loop_Cons_cases)
    case (continue scores hs st1)
    let ?bt = "clock (time_calls st + 1) - clock (time_calls st)"
    let ?trips = "zip (asnumpy (batch_source b)) (zip (asnumpy (batch_target b)) scores)"
    from Cons.prems(2) continue(1) have shape:
      "length (asnumpy (batch_target b)) = length (asnumpy (batch_source b))"
      "length scores = length (asnumpy (batch_source b))"
      by (simp_all add: ib)
    with continue(3) have len1: "length hs = length ?here" by simp
    have nth1: "?trips ! k = (fst (?here ! k), snd (?here ! k), scores ! k)" if "k < length hs" for k
      using that len1 shape by simp
    from Cons.prems(2) have "\<forall>b\<in>set (map snd rest).
       length (asnumpy (batch_target b)) = length (asnumpy (batch_source b)) \<and>
       (\<forall>scores. score_batch C sal self b = Inr scores \<longrightarrow>
          length scores = length (asnumpy (batch_source b)))" by simp
    from Cons.IH[OF continue(5) this] obtain hs2 where
      out: "output_handler st' = output_handler st1 @ hs2"
      and len2: "length hs2 = length (?sents rest)"
      and nth2: "\<forall>k<length hs2. \<exists>raw bt.
        sentence_output C self (sentence_no st1 + Suc k) bt
          (fst (?sents rest ! k), snd (?sents rest ! k), raw) = Inr (hs2 ! k)"
      by blast
    have sn1: "sentence_no st1 = sentence_no st + length hs" "output_handler st1 = output_handler st @ hs"
      using continue(2) by simp_all
    have "\<exists>raw bt. sentence_output C self (sentence_no st + Suc k) bt
          (fst (?sents (ib # rest) ! k), snd (?sents (ib # rest) ! k), raw) = Inr ((hs @ hs2) ! k)"
      if k: "k < length (hs @ hs2)" for k
    proof (cases "k < length hs")
      case True
      with continue(4) nth1 have "sentence_output C self (sentence_no st + Suc k) ?bt
          (fst (?here ! k), snd (?here ! k), scores ! k) = Inr (hs ! k)" by simp
      moreover from True len1 have "?sents (ib # rest) ! k = ?here ! k" "(hs @ hs2) ! k = hs ! k"
        unfolding sents by (simp_all add: nth_append)
      ultimately show ?thesis by (simp only:) blast
    next
      case False
      define j where "j = k - length hs"
      from False k have j: "j < length hs2" "k = length hs + j" by (simp_all add: j_def)
      with nth2 obtain raw bt where "sentence_output C self (sentence_no st1 + Suc j) bt
          (fst (?sents rest ! j), snd (?sents rest ! j), raw) = Inr (hs2 ! j)" by blast
      moreover from j len1 have k': "k = length ?here + j" by (simp only:)
      have "?sents (ib # rest) ! k = ?sents rest ! j"
        unfolding sents k' by (rule nth_append_length_plus)
      moreover have "(hs @ hs2) ! k = hs2 ! j"
        unfolding j(2) by (rule nth_append_length_plus)
      moreover from j sn1 have "sentence_no st1 + Suc j = sentence_no st + Suc k" by simp
      ultimately show ?thesis by (simp only:) blast
    qed
    moreover from out sn1 have "output_handler st' = output_handler st @ (hs @ hs2)" by simp
    moreover from len1 len2 have "length (hs @ hs2) = length (?sents (ib # rest))"
      unfolding sents by simp
    ultimately show ?thesis by blast
  qed simp_all
qed

subsection \<open>One sentence\<close>

lemma sentence_output_Inr:
  assumes "sentence_output C self n bt (src, tgt, raw) = Inr h"
  obtains ids toks ttoks s00 where
    "column0 src = Inr ids"
    "ids2tokens ids (source_vocab_inv self) (exclude_list self) = Inr toks"
    "ids2tokens tgt (target_vocab_inv self) (exclude_list self) = Inr ttoks"
    "bind (first src) first = Inr s00"
    "h = (TranslatorInput n toks,
          TranslatorOutput n (join (TOKEN_SEPARATOR C) ttoks) None None
            (if s00 = PAD_ID C \<or> first tgt = Inr (PAD_ID C) then NegInf else raw),
          bt)"
  using assms
  by (auto simp: sentence_output_def bind_def Let_def split: sum.splits if_splits)

lemma column0_first:
  "column0 src = Inr ids \<Longrightarrow> bind (first src) first = first ids"
  by (cases src) (auto simp: bind_def first_def split: sum.splits list.splits)

lemma sentence_output_column0:
  assumes "column0 src' = column0 src"
  shows "sentence_output C self n bt (src', tgt, raw) = sentence_output C self n bt (src, tgt, raw)"
proof (cases "column0 src")
  case (Inl e)
  with assms show ?thesis by (simp add: sentence_output_def bind_def)
next
  case (Inr ids)
  with assms have "bind (first src') first = bind (first src) first"
    by (simp add: column0_first)
  with assms show ?thesis by (simp add: sentence_output_def)
qed

lemma score_fst:
  "fst (score C sal self clock score_iter)
     = output_handler (snd (score_loop C sal self clock (enumerate 1 score_iter) initial_state))"
  by (simp add: score_def split: prod.splits option.splits)

lemma emitted_origin:
  assumes "h \<in> set (fst (score C sal self clock score_iter))"
  shows "\<exists>b\<in>set score_iter. \<exists>scores sentence n bt.
        score_batch C sal self b = Inr scores \<and>
        sentence \<in> set (zip (asnumpy (batch_source b)) (zip (asnumpy (batch_target b)) scores)) \<and>
        sentence_output C self n bt sentence = Inr h"
proof -
  obtain r st where run: "score_loop C sal self clock (enumerate 1 score_iter) initial_state = (r, st)"
    by (cases "score_loop C sal self clock (enumerate 1 score_iter) initial_state") blast
  from assms have h: "h \<in> set (output_handler st)"
    unfolding score_fst run snd_conv .
  from score_loop_origin[OF run] obtain hs where
    hs: "output_handler st = output_handler initial_state @ hs"
    and origin: "\<forall>h\<in>set hs. \<exists>b\<in>set (map snd (enumerate 1 score_iter)). \<exists>scores sentence n bt.
        score_batch C sal self b = Inr scores \<and>
        sentence \<in> set (zip (asnumpy (batch_source b)) (zip (asnumpy (batch_target b)) scores)) \<and>
        sentence_output C self n bt sentence = Inr h"
    by blast
  from hs h have "h \<in> set hs" by (simp add: initial_state_def)
  with origin show ?thesis unfolding map_snd_enumerate by blast
qed

lemma score_loop_None_ex:
  assumes "fst (score_loop C sal self clock ibs st) = None"
  obtains st' where "score_loop C sal self clock ibs st = (None, st')"
  using assms by (cases "score_loop C sal self clock ibs st") simp

subsection \<open>The records and the summary\<close>

text \<open>
  Claim C3, as the code has it. Every record the output handler receives comes from a
  sentence of a batch of the stream (its source, its target and its score among the scores
  \<open>score_batch\<close> returned for that batch). Its score is negative infinity when the first
  source id (first position, first factor) or the first target id of that sentence is PAD,
  and otherwise it is the score computed by \<open>score_batch\<close>, unchanged, whatever that score
  is.
\<close>

theorem C3_degenerate_pairs_score_neg_inf:
  assumes emitted: "(TranslatorInput n tokens, TranslatorOutput n' translation a b x, bt)
      \<in> set (fst (score C sal self clock score_iter))"
  shows "\<exists>batch\<in>set score_iter. \<exists>scores src tgt raw.
     score_batch C sal self batch = Inr scores \<and>
     (src, tgt, raw) \<in> set (zip (asnumpy (batch_source batch))
                              (zip (asnumpy (batch_target batch)) scores)) \<and>
     sentence_output C self n bt (src, tgt, raw)
       = Inr (TranslatorInput n tokens, TranslatorOutput n' translation a b x, bt) \<and>
     x = (if bind (first src) first = Inr (PAD_ID C) \<or> first tgt = Inr (PAD_ID C)
          then NegInf else raw)"
proof -
  let ?h = "(TranslatorInput n tokens, TranslatorOutput n' translation a b x, bt)"
  from emitted_origin[OF emitted] obtain batch scores sentence m bt' where
    batch: "batch \<in> set score_iter" "score_batch C sal self batch = Inr scores"
    and mem: "sentence \<in> set (zip (asnumpy (batch_source batch))
                              (zip (asnumpy (batch_target batch)) scores))"
    and out: "sentence_output C self m bt' sentence = Inr ?h"
    by blast
  obtain src tgt raw where sentence: "sentence = (src, tgt, raw)" by (cases sentence)
  from out[unfolded sentence] obtain s00 where
    s00: "bind (first src) first = Inr s00"
    and x: "x = (if s00 = PAD_ID C \<or> first tgt = Inr (PAD_ID C) then NegInf else raw)"
    and same: "m = n" "bt' = bt"
    by (rule sentence_output_Inr) simp
  have "x = (if bind (first src) first = Inr (PAD_ID C) \<or> first tgt = Inr (PAD_ID C)
          then NegInf else raw)"
    using s00 x by simp
  then show ?thesis
    using batch mem out unfolding sentence same by blast
qed

theorem C3_degenerate_pairs_score_neg_inf_witness:
  "(TranslatorInput 2 [], TranslatorOutput 2 [] None None NegInf, 1)
      \<in> set (fst (score example_constants single_shard example_scorer real [example_batch])) \<and>
   (\<exists>batch\<in>set [example_batch]. \<exists>scores src tgt raw.
     score_batch example_constants single_shard example_scorer batch = Inr scores \<and>
     (src, tgt, raw) \<in> set (zip (asnumpy (batch_source batch))
                              (zip (asnumpy (batch_target batch)) scores)) \<and>
     sentence_output example_constants example_scorer 2 1 (src, tgt, raw)
       = Inr (TranslatorInput 2 [], TranslatorOutput 2 [] None None NegInf, 1) \<and>
     NegInf = (if bind (first src) first = Inr (PAD_ID example_constants)
                  \<or> first tgt = Inr (PAD_ID example_constants)
               then NegInf else raw)) \<and>
   fst (score example_constants single_shard example_scorer real [example_batch])
     = [(TranslatorInput 1 [''a'', ''b''],
         TranslatorOutput 1 ''c d'' None None (Float (2 * ln (1 / 4))), 1),
        (TranslatorInput 2 [], TranslatorOutput 2 [] None None NegInf, 1)]"
proof -
  have all: "fst (score example_constants single_shard example_scorer real [example_batch])
     = [(TranslatorInput 1 [''a'', ''b''],
         TranslatorOutput 1 ''c d'' None None (Float (2 * ln (1 / 4))), 1),
        (TranslatorInput 2 [], TranslatorOutput 2 [] None None NegInf, 1)]"
    by (simp add: example_defs eval_defs)
  then have emitted: "(TranslatorInput 2 [], TranslatorOutput 2 [] None None NegInf, 1)
      \<in> set (fst (score example_constants single_shard example_scorer real [example_batch]))"
    by simp
  from C3_degenerate_pairs_score_neg_inf[OF emitted] emitted all show ?thesis by blast
qed

text \<open>
  The claim as stated fails in its only-if half. The scorer of the example is given a model
  with one time step and a length penalty that returns its argument (exponent 1, offset 0).
  The only sentence has source 5 and target 9, none of them PAD, and target length 1: the
  sum of the token scores, \<open>ln (1 / 4)\<close>, is divided by the length penalty at 0, which gives
  negative infinity, and the record carries it.
\<close>

theorem C3_neg_inf_without_pad:
  "(let self = example_scorer
        \<lparr>model := \<lparr>model_dtype = ''float32'',
                    forward = rowwise_model (\<lambda>_. [[0, 0, 0, 0]]) None\<rparr>,
         batch_scorer := (batch_scorer example_scorer)\<lparr>length_penalty := (\<lambda>x. x)\<rparr>\<rparr>;
        b = \<lparr>batch_source = NDArray ''float32'' [[[5]]],
             batch_source_length = NDArray ''float32'' [1],
             batch_target = NDArray ''float32'' [[9]],
             batch_target_length = NDArray ''float32'' [1],
             batch_labels = \<lparr>TARGET_LABEL_NAME = NDArray ''float32'' [[3]]\<rparr>\<rparr>
    in score_batch example_constants single_shard self b = Inr [NegInf] \<and>
       fst (score example_constants single_shard self real [b])
         = [(TranslatorInput 1 [''a''], TranslatorOutput 1 ''c'' None None NegInf, 1)] \<and>
       \<not> (bind (first (asnumpy (batch_source b) ! 0)) first = Inr (PAD_ID example_constants) \<or>
          first (asnumpy (batch_target b) ! 0) = Inr (PAD_ID example_constants)))"
  by (simp add: example_defs eval_defs)

text \<open>
  Claim C10. For every record the output handler receives, the source tokens are the
  rendering of column 0 of the sentence's source array (the first factor of every
  position), the id inspected by the check for a degenerate pair is the first entry of that
  column, and any source array with the same column 0, whatever its other factors hold,
  gives the same record.
\<close>

theorem C10_first_source_factor_only:
  assumes emitted: "(TranslatorInput n tokens, out, bt)
      \<in> set (fst (score C sal self clock score_iter))"
  shows "\<exists>batch\<in>set score_iter. \<exists>scores src tgt raw source_ids.
     score_batch C sal self batch = Inr scores \<and>
     (src, tgt, raw) \<in> set (zip (asnumpy (batch_source batch))
                              (zip (asnumpy (batch_target batch)) scores)) \<and>
     sentence_output C self n bt (src, tgt, raw) = Inr (TranslatorInput n tokens, out, bt) \<and>
     column0 src = Inr source_ids \<and>
     ids2tokens source_ids (source_vocab_inv self) (exclude_list self) = Inr tokens \<and>
     bind (first src) first = first source_ids \<and>
     (\<forall>src'. column0 src' = Inr source_ids \<longrightarrow>
        sentence_output C self n bt (src', tgt, raw) = Inr (TranslatorInput n tokens, out, bt))"
proof -
  let ?h = "(TranslatorInput n tokens, out, bt)"
  from emitted_origin[OF emitted] obtain batch scores sentence m bt' where
    batch: "batch \<in> set score_iter" "score_batch C sal self batch = Inr scores"
    and mem: "sentence \<in> set (zip (asnumpy (batch_source batch))
                              (zip (asnumpy (batch_target batch)) scores))"
    and out: "sentence_output C self m bt' sentence = Inr ?h"
    by blast
  obtain src tgt raw where sentence: "sentence = (src, tgt, raw)" by (cases sentence)
  from out[unfolded sentence] obtain ids where
    ids: "column0 src = Inr ids"
      "ids2tokens ids (source_vocab_inv self) (exclude_list self) = Inr tokens"
    and same: "m = n" "bt' = bt"
    by (rule sentence_output_Inr) simp
  have check: "bind (first src) first = first ids"
    using ids(1) by (rule column0_first)
  have "sentence_output C self n bt (src', tgt, raw) = Inr ?h" if "column0 src' = Inr ids" for src'
    using sentence_output_column0[of src' src C self n bt tgt raw] that ids(1) out
    unfolding sentence same by simp
  with batch mem out ids check show ?thesis
    unfolding sentence same by blast
qed

theorem C10_first_source_factor_only_witness:
  "(TranslatorInput 1 [''a'', ''b''], TranslatorOutput 1 ''c d'' None None (Float (2 * ln (1 / 4))), 1)
      \<in> set (fst (score example_constants single_shard example_scorer real [example_batch])) \<and>
   (\<exists>batch\<in>set [example_batch]. \<exists>scores src tgt raw source_ids.
     score_batch example_constants single_shard example_scorer batch = Inr scores \<and>
     (src, tgt, raw) \<in> set (zip (asnumpy (batch_source batch))
                              (zip (asnumpy (batch_target batch)) scores)) \<and>
     column0 src = Inr source_ids \<and>
     ids2tokens source_ids (source_vocab_inv example_scorer) (exclude_list example_scorer)
       = Inr [''a'', ''b''] \<and>
     sentence_output example_constants example_scorer 1 1 (map (\<lambda>x. [x, 11, 12]) source_ids, tgt, raw)
       = Inr (TranslatorInput 1 [''a'', ''b''],
              TranslatorOutput 1 ''c d'' None None (Float (2 * ln (1 / 4))), 1))"
proof -
  have emitted: "(TranslatorInput 1 [''a'', ''b''],
        TranslatorOutput 1 ''c d'' None None (Float (2 * ln (1 / 4))), 1)
      \<in> set (fst (score example_constants single_shard example_scorer real [example_batch]))"
    by (simp add: example_defs eval_defs)
  have col: "column0 (map (\<lambda>x. [x, 11, 12]) ids) = Inr ids" for ids :: "nat list"
    by (induction ids) (simp_all add: bind_def first_def)
  from C10_first_source_factor_only[OF emitted] emitted col show ?thesis by blast
qed

text \<open>
  Claim C8. When the loop over the stream ends without an exception, and every batch has as
  many target rows and as many scores as source rows, the output handler has received
  exactly one record per sentence, in arrival order (batches in order, rows within a batch
  in order): the record at position k (from 0) carries the sentence id k + 1 in its input
  and in its output part, and is the output of the sentence at position k of the stream.
\<close>

theorem C8_one_record_per_sentence_in_order:
  assumes loop: "fst (score_loop C sal self clock (enumerate 1 score_iter) initial_state) = None"
    and wf: "\<forall>b\<in>set score_iter.
       length (asnumpy (batch_target b)) = length (asnumpy (batch_source b)) \<and>
       (\<forall>scores. score_batch C sal self b = Inr scores \<longrightarrow>
          length scores = length (asnumpy (batch_source b)))"
  shows "length (fst (score C sal self clock score_iter))
           = (\<Sum>b\<leftarrow>score_iter. length (asnumpy (batch_source b))) \<and>
     length (fst (score C sal self clock score_iter))
           = length (concat (map (\<lambda>b. zip (asnumpy (batch_source b)) (asnumpy (batch_target b)))
                       score_iter)) \<and>
     (\<forall>k<length (fst (score C sal self clock score_iter)).
        \<exists>tokens translation x raw bt.
          fst (score C sal self clock score_iter) ! k
            = (TranslatorInput (Suc k) tokens, TranslatorOutput (Suc k) translation None None x, bt) \<and>
          sentence_output C self (Suc k) bt
            (fst (concat (map (\<lambda>b. zip (asnumpy (batch_source b)) (asnumpy (batch_target b)))
                       score_iter) ! k),
             snd (concat (map (\<lambda>b. zip (asnumpy (batch_source b)) (asnumpy (batch_target b)))
                       score_iter) ! k), raw)
            = Inr (fst (score C sal self clock score_iter) ! k))"
proof -
  let ?sents = "concat (map (\<lambda>b. zip (asnumpy (batch_source b)) (asnumpy (batch_target b))) score_iter)"
  from loop obtain st where
    run: "score_loop C sal self clock (enumerate 1 score_iter) initial_state = (None, st)"
    by (rule score_loop_None_ex)
  have out: "fst (score C sal self clock score_iter) = output_handler st"
    unfolding score_fst run snd_conv ..
  from wf have wf': "\<forall>b\<in>set (map snd (enumerate 1 score_iter)).
       length (asnumpy (batch_target b)) = length (asnumpy (batch_source b)) \<and>
       (\<forall>scores. score_batch C sal self b = Inr scores \<longrightarrow>
          length scores = length (asnumpy (batch_source b)))"
    unfolding map_snd_enumerate .
  from score_loop_order[OF run wf', unfolded map_snd_enumerate] obtain hs where
    hs: "output_handler st = output_handler initial_state @ hs"
    and len: "length hs = length ?sents"
    and nth: "\<forall>k<length hs. \<exists>raw bt.
        sentence_output C self (sentence_no initial_state + Suc k) bt
          (fst (?sents ! k), snd (?sents ! k), raw) = Inr (hs ! k)"
    by blast
  have out': "fst (score C sal self clock score_iter) = hs"
    using out hs by (simp add: initial_state_def)
  have count: "length ?sents = (\<Sum>b\<leftarrow>score_iter. length (asnumpy (batch_source b)))"
    using wf by (induction score_iter) simp_all
  have "\<exists>tokens translation x raw bt.
          hs ! k = (TranslatorInput (Suc k) tokens, TranslatorOutput (Suc k) translation None None x, bt) \<and>
          sentence_output C self (Suc k) bt (fst (?sents ! k), snd (?sents ! k), raw) = Inr (hs ! k)"
    if "k < length hs" for k
  proof -
    from nth that obtain raw bt where
      so: "sentence_output C self (Suc k) bt (fst (?sents ! k), snd (?sents ! k), raw) = Inr (hs ! k)"
      by (auto simp: initial_state_def)
    from so obtain toks ttoks x where "hs ! k = (TranslatorInput (Suc k) toks,
          TranslatorOutput (Suc k) (join (TOKEN_SEPARATOR C) ttoks) None None x, bt)"
      by (rule sentence_output_Inr) blast
    with so show ?thesis by blast
  qed
  with len count show ?thesis unfolding out' by simp
qed

theorem C8_one_record_per_sentence_in_order_witness:
  "fst (score_loop example_constants single_shard example_scorer real
          (enumerate 1 [example_batch]) initial_state) = None \<and>
   length (fst (score example_constants single_shard example_scorer real [example_batch])) = 2 \<and>
   (\<exists>tokens translation x raw bt.
      fst (score example_constants single_shard example_scorer real [example_batch]) ! 1
        = (TranslatorInput 2 tokens, TranslatorOutput 2 translation None None x, bt) \<and>
      sentence_output example_constants example_scorer 2 bt ([[0], [0], [0]], [0, 0, 0], raw)
        = Inr (fst (score example_constants single_shard example_scorer real [example_batch]) ! 1))"
proof -
  have loop: "fst (score_loop example_constants single_shard example_scorer real
          (enumerate 1 [example_batch]) initial_state) = None"
    by (simp add: example_defs eval_defs)
  have wf: "\<forall>b\<in>set [example_batch].
       length (asnumpy (batch_target b)) = length (asnumpy (batch_source b)) \<and>
       (\<forall>scores. score_batch example_constants single_shard example_scorer b = Inr scores \<longrightarrow>
          length scores = length (asnumpy (batch_source b)))"
    by (auto simp add: example_defs eval_defs)
  have sents: "concat (map (\<lambda>b. zip (asnumpy (batch_source b)) (asnumpy (batch_target b)))
       [example_batch]) ! 1 = ([[0], [0], [0]], [0, 0, 0])"
    by (simp add: example_defs)
  have rows: "(\<Sum>b\<leftarrow>[example_batch]. length (asnumpy (batch_source b))) = 2"
    by (simp add: example_defs)
  from C8_one_record_per_sentence_in_order[OF loop wf] have
    len: "length (fst (score example_constants single_shard example_scorer real [example_batch])) = 2"
    and nth: "\<forall>k<length (fst (score example_constants single_shard example_scorer real [example_batch])).
        \<exists>tokens translation x raw bt.
          fst (score example_constants single_shard example_scorer real [example_batch]) ! k
            = (TranslatorInput (Suc k) tokens, TranslatorOutput (Suc k) translation None None x, bt) \<and>
          sentence_output example_constants example_scorer (Suc k) bt
            (fst (concat (map (\<lambda>b. zip (asnumpy (batch_source b)) (asnumpy (batch_target b)))
                       [example_batch]) ! k),
             snd (concat (map (\<lambda>b. zip (asnumpy (batch_source b)) (asnumpy (batch_target b)))
                       [example_batch]) ! k), raw)
            = Inr (fst (score example_constants single_shard example_scorer real [example_batch]) ! k)"
    unfolding rows by blast+
  from nth len have "\<exists>tokens translation x raw bt.
          fst (score example_constants single_shard example_scorer real [example_batch]) ! 1
            = (TranslatorInput (Suc 1) tokens, TranslatorOutput (Suc 1) translation None None x, bt) \<and>
          sentence_output example_constants example_scorer (Suc 1) bt
            (fst (concat (map (\<lambda>b. zip (asnumpy (batch_source b)) (asnumpy (batch_target b)))
                       [example_batch]) ! 1),
             snd (concat (map (\<lambda>b. zip (asnumpy (batch_source b)) (asnumpy (batch_target b)))
                       [example_batch]) ! 1), raw)
            = Inr (fst (score example_constants single_shard example_scorer real [example_batch]) ! 1)"
    by simp
  then have "\<exists>tokens translation x raw bt.
      fst (score example_constants single_shard example_scorer real [example_batch]) ! 1
        = (TranslatorInput 2 tokens, TranslatorOutput 2 translation None None x, bt) \<and>
      sentence_output example_constants example_scorer 2 bt ([[0], [0], [0]], [0, 0, 0], raw)
        = Inr (fst (score example_constants single_shard example_scorer real [example_batch]) ! 1)"
    unfolding sents by (simp add: numeral_2_eq_2)
  with loop len show ?thesis by blast
qed

text \<open>
  Claim C5, as the code has it. After the loop over the stream ended without an exception:
  if no sentence was processed, the logger receives exactly \<open>Processed 0 lines.\<close> and no
  division is made; if N > 0 sentences were processed and the accumulated time T is not
  zero, the logger receives the format
  \<open>Processed %d lines in %d batches. Total time: %.4f, sec/sent: %.4f, sent/sec: %.4f\<close>
  (no unit after the total time) with the arguments N, the ceiling of N divided by the
  last batch index (the number of batches), T, T / N and N / T.
\<close>

theorem C5_summary_line:
  assumes loop: "fst (score_loop C sal self clock (enumerate 1 score_iter) initial_state) = None"
  shows "(length (fst (score C sal self clock score_iter)) = 0 \<longrightarrow>
            snd (score C sal self clock score_iter) = Inr (LogInfo ''Processed 0 lines.'' [])) \<and>
         (length (fst (score C sal self clock score_iter)) \<noteq> 0 \<and>
          (\<Sum>k<length score_iter. clock (2 * k + 1) - clock (2 * k)) \<noteq> 0 \<longrightarrow>
            snd (score C sal self clock score_iter) = Inr (LogInfo
              ''Processed %d lines in %d batches. Total time: %.4f, sec/sent: %.4f, sent/sec: %.4f''
              [ArgInt (int (length (fst (score C sal self clock score_iter)))),
               ArgInt \<lceil>real (length (fst (score C sal self clock score_iter)))
                        / real (length score_iter)\<rceil>,
               ArgFloat (\<Sum>k<length score_iter. clock (2 * k + 1) - clock (2 * k)),
               ArgFloat ((\<Sum>k<length score_iter. clock (2 * k + 1) - clock (2 * k))
                        / real (length (fst (score C sal self clock score_iter)))),
               ArgFloat (real (length (fst (score C sal self clock score_iter)))
                        / (\<Sum>k<length score_iter. clock (2 * k + 1) - clock (2 * k)))]))"
proof -
  let ?T = "\<Sum>k<length score_iter. clock (2 * k + 1) - clock (2 * k)"
  from loop obtain st where
    run: "score_loop C sal self clock (enumerate 1 score_iter) initial_state = (None, st)"
    by (rule score_loop_None_ex)
  have out: "fst (score C sal self clock score_iter) = output_handler st"
    unfolding score_fst run snd_conv ..
  from score_loop_counters[OF run] obtain hs where
    "output_handler st = output_handler initial_state @ hs"
    "sentence_no st = sentence_no initial_state + length hs"
    "batch_no st = (if score_iter = [] then batch_no initial_state else 1 + length score_iter - 1)"
    "total_time st = total_time initial_state +
          (\<Sum>k<length score_iter. clock (time_calls initial_state + 2 * k + 1)
              - clock (time_calls initial_state + 2 * k))"
    by blast
  then have st: "sentence_no st = length (output_handler st)"
    "score_iter \<noteq> [] \<Longrightarrow> batch_no st = length score_iter"
    "total_time st = ?T"
    by (simp_all add: initial_state_def)
  have nonempty: "score_iter \<noteq> []" if "output_handler st \<noteq> []"
  proof
    assume "score_iter = []"
    with run have "st = initial_state" by simp
    with that show False by (simp add: initial_state_def)
  qed
  have summary: "snd (score C sal self clock score_iter) =
      (if sentence_no st \<noteq> 0 then
            bind (truediv (real (sentence_no st)) (real (batch_no st))) (\<lambda>per_batch.
            bind (truediv (total_time st) (real (sentence_no st))) (\<lambda>sec_per_sent.
            bind (truediv (real (sentence_no st)) (total_time st)) (\<lambda>sent_per_sec.
              Inr (LogInfo
                ''Processed %d lines in %d batches. Total time: %.4f, sec/sent: %.4f, sent/sec: %.4f''
                [ArgInt (int (sentence_no st)), ArgInt \<lceil>per_batch\<rceil>, ArgFloat (total_time st),
                 ArgFloat sec_per_sent, ArgFloat sent_per_sec]))))
          else Inr (LogInfo ''Processed 0 lines.'' []))"
    unfolding score_def run by simp
  have zero: "snd (score C sal self clock score_iter) = Inr (LogInfo ''Processed 0 lines.'' [])"
    if "length (output_handler st) = 0"
    using that st(1) unfolding summary by simp
  have some: "snd (score C sal self clock score_iter) = Inr (LogInfo
              ''Processed %d lines in %d batches. Total time: %.4f, sec/sent: %.4f, sent/sec: %.4f''
              [ArgInt (int (length (output_handler st))),
               ArgInt \<lceil>real (length (output_handler st)) / real (length score_iter)\<rceil>,
               ArgFloat ?T, ArgFloat (?T / real (length (output_handler st))),
               ArgFloat (real (length (output_handler st)) / ?T)])"
    if "length (output_handler st) \<noteq> 0" "?T \<noteq> 0"
  proof -
    from that(1) have ne: "score_iter \<noteq> []" using nonempty by auto
    show ?thesis
      unfolding summary st(1) st(2)[OF ne] st(3)
      using that ne by (simp add: truediv_def bind_def)
  qed
  from zero some show ?thesis unfolding out by blast
qed

theorem C5_summary_line_witness:
  "fst (score_loop example_constants single_shard example_scorer real
          (enumerate 1 [example_batch]) initial_state) = None \<and>
   snd (score example_constants single_shard example_scorer real [example_batch])
     = Inr (LogInfo
         ''Processed %d lines in %d batches. Total time: %.4f, sec/sent: %.4f, sent/sec: %.4f''
         [ArgInt 2, ArgInt 2, ArgFloat 1, ArgFloat (1 / 2), ArgFloat 2]) \<and>
   fst (score_loop example_constants single_shard example_scorer real (enumerate 1 []) initial_state)
     = None \<and>
   snd (score example_constants single_shard example_scorer real [])
     = Inr (LogInfo ''Processed 0 lines.'' [])"
proof -
  have loop: "fst (score_loop example_constants single_shard example_scorer real
          (enumerate 1 [example_batch]) initial_state) = None"
    by (simp add: example_defs eval_defs)
  have empty: "fst (score_loop example_constants single_shard example_scorer real
          (enumerate 1 []) initial_state) = None"
    by simp
  have n: "length (fst (score example_constants single_shard example_scorer real [example_batch])) = 2"
    by (simp add: example_defs eval_defs)
  have n0: "length (fst (score example_constants single_shard example_scorer real [])) = 0"
    by (simp add: score_def initial_state_def)
  from C5_summary_line[OF loop] C5_summary_line[OF empty] loop empty show ?thesis
    unfolding n n0 by simp
qed

text \<open>
  On the example run the logger receives the format without \<open>sec\<close> after the total time,
  not the line the specification quotes; and with a clock that stands still, two sentences
  are processed and the division by the total time raises.
\<close>

theorem C5_summary_line_as_specified_fails:
  "snd (score example_constants single_shard example_scorer real [example_batch])
     = Inr (LogInfo
         ''Processed %d lines in %d batches. Total time: %.4f, sec/sent: %.4f, sent/sec: %.4f''
         [ArgInt 2, ArgInt 2, ArgFloat 1, ArgFloat (1 / 2), ArgFloat 2]) \<and>
   snd (score example_constants single_shard example_scorer real [example_batch])
     \<noteq> Inr (LogInfo
         ''Processed %d lines in %d batches. Total time: %.4f sec, sec/sent: %.4f, sent/sec: %.4f''
         [ArgInt 2, ArgInt 2, ArgFloat 1, ArgFloat (1 / 2), ArgFloat 2]) \<and>
   length (fst (score example_constants single_shard example_scorer (\<lambda>_. 0) [example_batch])) = 2 \<and>
   snd (score example_constants single_shard example_scorer (\<lambda>_. 0) [example_batch])
     = Inl ZeroDivisionError"
  by (simp add: example_defs eval_defs)

end
